theory Spec2Isabelle
  imports Complex_Main "HOL-Library.Multiset" "HOL-Library.Sublist" "HOL-Library.Log_Nat"
    "HOL-Library.Product_Lexorder"
begin

section \<open>Python values, exceptions and the outside world\<close>

text \<open>
  The program (\<^verbatim>\<open>src/main.py\<close>) is Python. Exceptions are values: a function that can
  raise returns \<open>exn + 'a\<close>, and a method that mutates its object or talks to the outside
  world also returns the object and the world as they are when it returns or raises.

  Only the classes the program raises, catches or can meet are listed. \<open>KeyError\<close> and
  \<open>IndexError\<close> are subclasses of \<open>LookupError\<close>, so \<^verbatim>\<open>except LookupError\<close> catches them.
  \<open>OSError\<close> stands for the failures of the HTTP library. \<open>msg\<close> is what \<^verbatim>\<open>str(e)\<close> gives;
  \<open>ctx\<close> is the exception that was being handled when this one was raised
  (Python's implicit chaining, \<^verbatim>\<open>__context__\<close>).
\<close>

datatype exn_class =
  LookupError | KeyError | IndexError | TypeError | ValueError
  | ZeroDivisionError | OverflowError | EOFError | OSError

datatype exn = Exn (cls: exn_class) (msg: string) (ctx: "exn option")

fun is_LookupError :: "exn_class \<Rightarrow> bool" where
  "is_LookupError LookupError = True"
| "is_LookupError KeyError = True"
| "is_LookupError IndexError = True"
| "is_LookupError _ = False"

text \<open>
  A Python float is an IEEE double: not-a-number, an infinity or a finite value, which is
  a rational number. The two zeros are one value here; they are equal in every comparison
  the program makes.
\<close>

datatype pyfloat = NaN | PosInf | NegInf | Finite rat

text \<open>What \<^verbatim>\<open>zip_to_loc_info\<close> can return in a component: \<^verbatim>\<open>None\<close>, a float or a string.\<close>

datatype pyval = PNone | PFloat pyfloat | PStr string

text \<open>\<^verbatim>\<open>math.isnan(x)\<close>: raises \<open>TypeError\<close> when \<open>x\<close> is not a number.\<close>

fun math_isnan :: "pyval \<Rightarrow> exn + bool" where
  "math_isnan (PFloat f) = Inr (f = NaN)"
| "math_isnan PNone = Inl (Exn TypeError ''must be real number, not NoneType'' None)"
| "math_isnan (PStr s) = Inl (Exn TypeError ''must be real number, not str'' None)"

text \<open>
  What \<^verbatim>\<open>json.loads\<close> returns. A dict is an association list with distinct keys, read
  with \<open>map_of\<close>.
\<close>

datatype json =
  JNull | JBool bool | JInt int | JFloat pyfloat | JStr string
  | JArr "json list" | JObj "(string \<times> json) list"

text \<open>The name Python prints for the type of a value, and a text in single quotes.\<close>

definition quoted :: "string \<Rightarrow> string" where
  "quoted s = CHR 0x27 # s @ [CHR 0x27]"

fun type_name :: "json \<Rightarrow> string" where
  "type_name JNull = ''NoneType''"
| "type_name (JBool b) = ''bool''"
| "type_name (JInt i) = ''int''"
| "type_name (JFloat f) = ''float''"
| "type_name (JStr s) = ''str''"
| "type_name (JArr xs) = ''list''"
| "type_name (JObj kvs) = ''dict''"

section \<open>Numbers\<close>

subsection \<open>Rounding to a double\<close>

text \<open>
  Every float operation returns the double nearest to the exact result, a tie going to
  the double with an even significand. A finite double is \<open>m * 2 ^ e\<close> with \<open>|m| < 2 ^ 53\<close>
  and \<open>- 1074 \<le> e\<close>; a result that rounds to \<open>2 ^ 1024\<close> or more in magnitude is an
  infinity. \<open>floor_log2 x\<close> is the exponent of the leading bit of a positive \<open>x\<close>.
\<close>

definition pow2 :: "int \<Rightarrow> rat" where
  "pow2 k = (if 0 \<le> k then 2 ^ nat k else 1 / 2 ^ nat (- k))"

definition floor_log2 :: "rat \<Rightarrow> int" where
  "floor_log2 x =
     (case quotient_of x of
        (a, b) \<Rightarrow> (let k = bitlen a - bitlen b in if pow2 k \<le> x then k else k - 1))"

definition round_half_even :: "rat \<Rightarrow> int" where
  "round_half_even q =
     (let f = \<lfloor>q\<rfloor>; d = q - of_int f
      in if d < 1 / 2 then f else if 1 / 2 < d then f + 1 else if even f then f else f + 1)"

definition round_to_double :: "rat \<Rightarrow> pyfloat" where
  "round_to_double x =
     (if x = 0 then Finite 0
      else let e = max (floor_log2 \<bar>x\<bar> - 52) (- 1074);
               y = of_int (round_half_even (x / pow2 e)) * pow2 e
           in if 2 ^ 1024 \<le> \<bar>y\<bar> then (if 0 < x then PosInf else NegInf) else Finite y)"

subsection \<open>Comparison and arithmetic of floats\<close>

text \<open>\<^verbatim>\<open>a < b\<close> on floats: false whenever one of them is NaN.\<close>

fun float_lt :: "pyfloat \<Rightarrow> pyfloat \<Rightarrow> bool" where
  "float_lt NaN b = False"
| "float_lt a NaN = False"
| "float_lt a NegInf = False"
| "float_lt PosInf b = False"
| "float_lt NegInf b = True"
| "float_lt (Finite a) PosInf = True"
| "float_lt (Finite a) (Finite b) = (a < b)"

text \<open>\<^verbatim>\<open>a <= b\<close> on floats.\<close>

definition float_le :: "pyfloat \<Rightarrow> pyfloat \<Rightarrow> bool" where
  "float_le a b = (float_lt a b \<or> (a = b \<and> a \<noteq> NaN))"

text \<open>\<^verbatim>\<open>a + b\<close> on floats.\<close>

fun float_add :: "pyfloat \<Rightarrow> pyfloat \<Rightarrow> pyfloat" where
  "float_add (Finite a) (Finite b) = round_to_double (a + b)"
| "float_add NaN b = NaN"
| "float_add a NaN = NaN"
| "float_add PosInf NegInf = NaN"
| "float_add NegInf PosInf = NaN"
| "float_add PosInf b = PosInf"
| "float_add NegInf b = NegInf"
| "float_add (Finite a) b = b"

text \<open>\<^verbatim>\<open>a / d\<close> for a float \<open>a\<close> and a finite positive float \<open>d\<close>.\<close>

fun float_div :: "pyfloat \<Rightarrow> rat \<Rightarrow> pyfloat" where
  "float_div (Finite a) d = round_to_double (a / d)"
| "float_div a d = a"

subsection \<open>Python numbers\<close>

text \<open>
  The numbers among the JSON values are the ints, the floats and the booleans (\<^verbatim>\<open>bool\<close> is a
  subclass of \<^verbatim>\<open>int\<close>: \<^verbatim>\<open>True\<close> is 1). An int is unbounded and exact.
\<close>

datatype number = NInt int | NFloat pyfloat

fun as_number :: "json \<Rightarrow> number option" where
  "as_number (JInt i) = Some (NInt i)"
| "as_number (JBool b) = Some (NInt (if b then 1 else 0))"
| "as_number (JFloat f) = Some (NFloat f)"
| "as_number j = None"

fun number_type :: "number \<Rightarrow> string" where
  "number_type (NInt i) = ''int''"
| "number_type (NFloat f) = ''float''"

text \<open>
  The value of a number. Python compares an int with a float by value, without rounding
  the int, so comparisons are made on the values.
\<close>

fun value_of :: "number \<Rightarrow> pyfloat" where
  "value_of (NInt i) = Finite (of_int i)"
| "value_of (NFloat f) = f"

definition as_value :: "json \<Rightarrow> pyfloat option" where
  "as_value j = map_option value_of (as_number j)"

text \<open>The conversion of an int to a float, as arithmetic between the two makes it.\<close>

definition int_to_float :: "int \<Rightarrow> exn + rat" where
  "int_to_float i =
     (case round_to_double (of_int i) of
        Finite r \<Rightarrow> Inr r
      | _ \<Rightarrow> Inl (Exn OverflowError ''int too large to convert to float'' None))"

text \<open>\<^verbatim>\<open>acc + item\<close>, where \<open>acc\<close> is a number.\<close>

definition py_add :: "number \<Rightarrow> json \<Rightarrow> exn + number" where
  "py_add acc item =
     (case as_number item of
        None \<Rightarrow>
          Inl (Exn TypeError
                 (''unsupported operand type(s) for +: '' @ quoted (number_type acc)
                  @ '' and '' @ quoted (type_name item)) None)
      | Some (NInt b) \<Rightarrow>
          (case acc of
             NInt a \<Rightarrow> Inr (NInt (a + b))
           | NFloat f \<Rightarrow>
               (case int_to_float b of
                  Inl e \<Rightarrow> Inl e
                | Inr g \<Rightarrow> Inr (NFloat (float_add f (Finite g)))))
      | Some (NFloat g) \<Rightarrow>
          (case acc of
             NInt a \<Rightarrow>
               (case int_to_float a of
                  Inl e \<Rightarrow> Inl e
                | Inr f \<Rightarrow> Inr (NFloat (float_add (Finite f) g)))
           | NFloat f \<Rightarrow> Inr (NFloat (float_add f g))))"

text \<open>
  The built-in \<^verbatim>\<open>sum\<close>: it starts from the int \<open>0\<close> and adds the items from left to right.
  (From CPython 3.12 on the float additions are compensated; this is the sum of the
  earlier versions.)
\<close>

fun sum_from :: "number \<Rightarrow> json list \<Rightarrow> exn + number" where
  "sum_from acc [] = Inr acc"
| "sum_from acc (item # items) =
     (case py_add acc item of
        Inl e \<Rightarrow> Inl e
      | Inr acc' \<Rightarrow> sum_from acc' items)"

definition py_sum :: "json list \<Rightarrow> exn + number" where
  "py_sum items = sum_from (NInt 0) items"

text \<open>
  The true division \<^verbatim>\<open>total / n\<close> of a number by a length. For two ints the exact quotient is
  rounded once.
\<close>

fun truediv :: "number \<Rightarrow> nat \<Rightarrow> exn + pyfloat" where
  "truediv (NInt a) n =
     (if n = 0 then Inl (Exn ZeroDivisionError ''division by zero'' None)
      else (case round_to_double (of_int a / of_nat n) of
              Finite r \<Rightarrow> Inr (Finite r)
            | _ \<Rightarrow> Inl (Exn OverflowError
                            ''integer division result too large for a float'' None)))"
| "truediv (NFloat f) n =
     (if n = 0 then Inl (Exn ZeroDivisionError ''float division by zero'' None)
      else (case int_to_float (int n) of
              Inl e \<Rightarrow> Inl e
            | Inr d \<Rightarrow> Inr (float_div f d)))"

text \<open>\<^verbatim>\<open>temp > threshold\<close> for a float threshold: only a number can be compared with it.\<close>

definition py_gt :: "json \<Rightarrow> pyfloat \<Rightarrow> exn + bool" where
  "py_gt temp threshold =
     (case as_value temp of
        None \<Rightarrow>
          Inl (Exn TypeError
                 (quoted ''>'' @ '' not supported between instances of ''
                  @ quoted (type_name temp) @ '' and '' @ quoted ''float'') None)
      | Some v \<Rightarrow> Inr (float_lt threshold v))"

section \<open>The dataset\<close>

text \<open>
  \<^verbatim>\<open>class HistoricalTemps\<close>, one field per attribute. \<open>self_temp_list\<close> is \<open>None\<close> between
  line 62 and the first load. The payload is the list of (date, temperature) pairs the
  loader builds from the response: both components are JSON values, whatever the
  archive sent.
\<close>

record HistoricalTemps =
  self_zip_code :: string
  self_start :: string
  self_end :: string
  self_lat :: pyval
  self_lon :: pyval
  self_loc_name :: pyval
  self_temp_list :: "(json \<times> json) list option"

type_synonym dataset = HistoricalTemps

text \<open>Iterating over \<^verbatim>\<open>None\<close> (a dataset with no payload) raises \<open>TypeError\<close>.\<close>

definition not_iterable :: exn where
  "not_iterable = Exn TypeError (quoted ''NoneType'' @ '' object is not iterable'') None"

subsection \<open>Queries\<close>

text \<open>
  \<^verbatim>\<open>extreme_days\<close> (lines 206-217): a list comprehension with a guard. The guard is
  evaluated entry by entry, and the first entry whose temperature cannot be compared
  ends the comprehension with its exception.
\<close>

fun extreme_loop :: "pyfloat \<Rightarrow> (json \<times> json) list \<Rightarrow> exn + (json \<times> json) list" where
  "extreme_loop threshold [] = Inr []"
| "extreme_loop threshold ((date, temp) # rest) =
     (case py_gt temp threshold of
        Inl e \<Rightarrow> Inl e
      | Inr hotter \<Rightarrow>
          (case extreme_loop threshold rest of
             Inl e \<Rightarrow> Inl e
           | Inr days \<Rightarrow> Inr (if hotter then (date, temp) # days else days)))"

definition extreme_days :: "dataset \<Rightarrow> pyfloat \<Rightarrow> exn + (json \<times> json) list" where
  "extreme_days self threshold =
     (case self_temp_list self of
        None \<Rightarrow> Inl not_iterable
      | Some temp_list \<Rightarrow> extreme_loop threshold temp_list)"

text \<open>
  \<^verbatim>\<open>sorted(xs, key=lambda x: x[1], reverse=True)\<close>. With at most one entry nothing is
  compared. When every key is a number other than NaN the keys are totally ordered, and
  the result is that of any stable sort: Python's sort is stable, and with
  \<^verbatim>\<open>reverse=True\<close> it still keeps entries with equal keys in their original order (CPython
  reverses the list, sorts it stably in ascending order and reverses the result).
  \<open>sort_key\<close> is the stable ascending sort, \<open>temp_rank\<close> orders the values as \<^verbatim>\<open><\<close> does.

  Otherwise the outcome depends on which pairs the interpreter's sort compares. A key
  that is \<^verbatim>\<open>None\<close> or a dict is compared at least once and no comparison with it is
  defined, so the sort raises \<open>TypeError\<close>; the message names the types of the first
  such pair compared. What the sort does with the remaining keys (NaN, strings, lists)
  is left to the interpreter. Both are parameters.
\<close>

record interpreter =
  sort_message :: "json list \<Rightarrow> string"
  sort_unordered :: "(json \<times> json) list \<Rightarrow> exn + (json \<times> json) list"

fun rank :: "pyfloat \<Rightarrow> int \<times> rat" where
  "rank NegInf = (- 1, 0)"
| "rank (Finite r) = (0, r)"
| "rank PosInf = (1, 0)"
| "rank NaN = (0, 0)"

definition temp_rank :: "json \<Rightarrow> int \<times> rat" where
  "temp_rank j = (case as_value j of Some v \<Rightarrow> rank v | None \<Rightarrow> (0, 0))"

definition ordered_number :: "json \<Rightarrow> bool" where
  "ordered_number j = (case as_value j of Some v \<Rightarrow> v \<noteq> NaN | None \<Rightarrow> False)"

fun never_ordered :: "json \<Rightarrow> bool" where
  "never_ordered JNull = True"
| "never_ordered (JObj kvs) = True"
| "never_ordered j = False"

definition sorted_key_reverse ::
  "interpreter \<Rightarrow> (json \<times> json) list \<Rightarrow> exn + (json \<times> json) list" where
  "sorted_key_reverse interp xs =
     (if length xs \<le> 1 then Inr xs
      else if list_all (\<lambda>x. ordered_number (snd x)) xs
      then Inr (rev (sort_key (\<lambda>x. temp_rank (snd x)) (rev xs)))
      else if list_ex (\<lambda>x. never_ordered (snd x)) xs
      then Inl (Exn TypeError (sort_message interp (map snd xs)) None)
      else sort_unordered interp xs)"

text \<open>
  The slice \<^verbatim>\<open>xs[:n]\<close>: the first \<open>n\<close> elements when \<open>n \<ge> 0\<close>; a negative \<open>n\<close> counts from
  the end, so the last \<open>-n\<close> elements are dropped.
\<close>

definition slice_to :: "'a list \<Rightarrow> int \<Rightarrow> 'a list" where
  "slice_to xs n =
     (if 0 \<le> n then take (nat n) xs else take (nat (int (length xs) + n)) xs)"

text \<open>\<^verbatim>\<open>top_x_days\<close> (lines 219-230).\<close>

definition top_x_days :: "interpreter \<Rightarrow> dataset \<Rightarrow> int \<Rightarrow> exn + (json \<times> json) list" where
  "top_x_days interp self num_days =
     (case self_temp_list self of
        None \<Rightarrow> Inl not_iterable
      | Some temp_list \<Rightarrow>
          (case sorted_key_reverse interp temp_list of
             Inl e \<Rightarrow> Inl e
           | Inr days \<Rightarrow> Inr (slice_to days num_days)))"

text \<open>
  \<^verbatim>\<open>average_temp\<close> (lines 87-96). The sum is taken first, so a temperature that is not a
  number raises before the division; the sum of no entries is the int \<open>0\<close>, and
  \<^verbatim>\<open>0 / 0\<close> raises \<open>ZeroDivisionError\<close>.
\<close>

definition average_temp :: "dataset \<Rightarrow> exn + pyfloat" where
  "average_temp self =
     (case self_temp_list self of
        None \<Rightarrow> Inl not_iterable
      | Some temp_list \<Rightarrow>
          (case py_sum [temp. (date, temp) \<leftarrow> temp_list] of
             Inl e \<Rightarrow> Inl e
           | Inr total_temp \<Rightarrow> truediv total_temp (length temp_list)))"

definition is_data_loaded :: "dataset \<Rightarrow> bool" where
  "is_data_loaded self = (self_temp_list self \<noteq> None)"

subsection \<open>The collaborators\<close>

text \<open>
  The row \<^verbatim>\<open>pgeocode\<close> answers with: whether it is empty, and the three fields the
  program reads. A missing latitude, longitude or place name is NaN.
\<close>

record location =
  loc_empty :: bool
  latitude :: pyfloat
  longitude :: pyfloat
  place_name :: pyval

text \<open>The query parameters of the archive request (lines 74-81).\<close>

record params =
  param_latitude :: pyval
  param_longitude :: pyval
  param_start_date :: string
  param_end_date :: string
  param_daily :: string
  param_timezone :: string

text \<open>
  The libraries are parameters: the geocoder, the HTTP client (the body of the response
  to the \<open>n\<close>-th request of the run, or the exception it raises) and the JSON parser.
\<close>

record env =
  query_postal_code :: "string \<Rightarrow> exn + location"
  requests_get :: "nat \<Rightarrow> params \<Rightarrow> exn + string"
  json_loads :: "string \<Rightarrow> exn + json"

text \<open>
  The world a run changes: the lines still to be read from standard input, what has been
  written to standard output (one entry per \<^verbatim>\<open>print\<close> or prompt) and the archive requests
  made so far.
\<close>

record world =
  stdin :: "string list"
  stdout :: "string list"
  requests :: "params list"

definition print :: "string \<Rightarrow> world \<Rightarrow> world" where
  "print s w = w\<lparr>stdout := stdout w @ [s]\<rparr>"

text \<open>\<^verbatim>\<open>input(prompt)\<close> writes the prompt and reads a line; at end of input it raises.\<close>

definition input :: "string \<Rightarrow> world \<Rightarrow> (exn + string) \<times> world" where
  "input prompt w =
     (let w' = w\<lparr>stdout := stdout w @ [prompt]\<rparr>
      in case stdin w' of
           [] \<Rightarrow> (Inl (Exn EOFError ''EOF when reading a line'' None), w')
         | l # ls \<Rightarrow> (Inr l, w'\<lparr>stdin := ls\<rparr>))"

subsection \<open>Resolving the postal code\<close>

text \<open>\<^verbatim>\<open>zip_to_loc_info\<close> (lines 167-188).\<close>

definition zip_to_loc_info :: "env \<Rightarrow> string \<Rightarrow> exn + (pyval \<times> pyval \<times> pyval)" where
  "zip_to_loc_info env zip_code =
     (case query_postal_code env zip_code of
        Inl e \<Rightarrow> Inl e
      | Inr location \<Rightarrow>
          if loc_empty location then Inr (PNone, PNone, PNone)
          else Inr (PFloat (latitude location), PFloat (longitude location),
                    place_name location))"

subsection \<open>Parsing the archive response\<close>

text \<open>\<^verbatim>\<open>x[key]\<close> with a string key: only a dict that has the key answers.\<close>

fun getitem :: "json \<Rightarrow> string \<Rightarrow> exn + json" where
  "getitem (JObj kvs) key =
     (case map_of kvs key of
        None \<Rightarrow> Inl (Exn KeyError (quoted key) None)
      | Some v \<Rightarrow> Inr v)"
| "getitem (JArr xs) key =
     Inl (Exn TypeError ''list indices must be integers or slices, not str'' None)"
| "getitem (JStr s) key =
     Inl (Exn TypeError (''string indices must be integers, not '' @ quoted ''str'') None)"
| "getitem x key =
     Inl (Exn TypeError (quoted (type_name x) @ '' object is not subscriptable'') None)"

text \<open>
  What iterating over a value yields: the elements of a list, the characters of a string,
  the keys of a dict; anything else is not iterable.
\<close>

fun py_iter :: "json \<Rightarrow> exn + json list" where
  "py_iter (JArr xs) = Inr xs"
| "py_iter (JStr s) = Inr (map (\<lambda>c. JStr [c]) s)"
| "py_iter (JObj kvs) = Inr (map (\<lambda>kv. JStr (fst kv)) kvs)"
| "py_iter x = Inl (Exn TypeError (quoted (type_name x) @ '' object is not iterable'') None)"

text \<open>\<^verbatim>\<open>list(zip(a, b))\<close>: pairs by position, stopping with the shorter argument.\<close>

definition list_zip :: "json \<Rightarrow> json \<Rightarrow> exn + (json \<times> json) list" where
  "list_zip a b =
     (case py_iter a of
        Inl e \<Rightarrow> Inl e
      | Inr xs \<Rightarrow> (case py_iter b of Inl e \<Rightarrow> Inl e | Inr ys \<Rightarrow> Inr (zip xs ys)))"

text \<open>\<^verbatim>\<open>_convert_json_to_list\<close> (lines 190-204).\<close>

definition convert_json_to_list :: "env \<Rightarrow> string \<Rightarrow> exn + (json \<times> json) list" where
  "convert_json_to_list env data =
     (case json_loads env data of
        Inl e \<Rightarrow> Inl e
      | Inr data_dict \<Rightarrow>
          (case getitem data_dict ''daily'' of
             Inl e \<Rightarrow> Inl e
           | Inr daily \<Rightarrow>
               (case getitem daily ''time'' of
                  Inl e \<Rightarrow> Inl e
                | Inr dates \<Rightarrow>
                    (case getitem data_dict ''daily'' of
                       Inl e \<Rightarrow> Inl e
                     | Inr daily' \<Rightarrow>
                         (case getitem daily' ''temperature_2m_max'' of
                            Inl e \<Rightarrow> Inl e
                          | Inr temps \<Rightarrow> list_zip dates temps)))))"

subsection \<open>Loading, construction and the setters\<close>

text \<open>
  \<^verbatim>\<open>_load_temps\<close> (lines 65-85). The attribute is assigned only after the request and the
  parsing have returned, so a load that raises leaves the object as it was.
\<close>

definition load_temps :: "env \<Rightarrow> dataset \<Rightarrow> world \<Rightarrow> (exn + unit) \<times> dataset \<times> world" where
  "load_temps env self w =
     (let params = \<lparr>param_latitude = self_lat self, param_longitude = self_lon self,
                    param_start_date = self_start self, param_end_date = self_end self,
                    param_daily = ''temperature_2m_max'',
                    param_timezone = ''America/Los_Angeles''\<rparr>;
          w' = w\<lparr>requests := requests w @ [params]\<rparr>
      in case requests_get env (length (requests w)) params of
           Inl e \<Rightarrow> (Inl e, self, w')
         | Inr json_data \<Rightarrow>
             (case convert_json_to_list env json_data of
                Inl e \<Rightarrow> (Inl e, self, w')
              | Inr temp_list \<Rightarrow> (Inr (), self\<lparr>self_temp_list := Some temp_list\<rparr>, w')))"

definition default_start :: string where
  "default_start = ''1950-08-13''"

definition default_end :: string where
  "default_end = ''2023-08-25''"

definition location_not_found :: exn where
  "location_not_found = Exn LookupError ''Invalid zip code: Location not found'' None"

text \<open>
  \<^verbatim>\<open>HistoricalTemps.__init__\<close> (lines 40-63). When it raises, the caller gets no object.
  \<^verbatim>\<open>math.isnan(lat) or math.isnan(lon)\<close> tests the longitude only when the latitude is
  a number that is not NaN.
\<close>

definition HistoricalTemps_init ::
  "env \<Rightarrow> string \<Rightarrow> string \<Rightarrow> string \<Rightarrow> world \<Rightarrow> (exn + dataset) \<times> world" where
  "HistoricalTemps_init env zip_code start_date end_date w =
     (case zip_to_loc_info env zip_code of
        Inl e \<Rightarrow> (Inl e, w)
      | Inr (lat, lon, loc_name) \<Rightarrow>
          (case math_isnan lat of
             Inl e \<Rightarrow> (Inl e, w)
           | Inr lat_nan \<Rightarrow>
               if lat_nan then (Inl location_not_found, w)
               else (case math_isnan lon of
                  Inl e \<Rightarrow> (Inl e, w)
                | Inr lon_nan \<Rightarrow>
                    if lon_nan then (Inl location_not_found, w)
                    else (case load_temps env
                                 \<lparr>self_zip_code = zip_code, self_start = start_date,
                                  self_end = end_date, self_lat = lat, self_lon = lon,
                                  self_loc_name = loc_name, self_temp_list = None\<rparr> w of
                            (Inl e, self, w') \<Rightarrow> (Inl e, w')
                          | (Inr u, self, w') \<Rightarrow> (Inr self, w')))))"

text \<open>The setter of \<^verbatim>\<open>start\<close> (lines 127-135).\<close>

definition start_setter ::
  "env \<Rightarrow> string \<Rightarrow> dataset \<Rightarrow> world \<Rightarrow> (exn + unit) \<times> dataset \<times> world" where
  "start_setter env new_value self w =
     (let old_start = self_start self
      in case load_temps env (self\<lparr>self_start := new_value\<rparr>) w of
           (Inl e, self', w') \<Rightarrow>
             (Inl (Exn LookupError
                     (''Can't load data for start date '' @ new_value @ '': '' @ msg e)
                     (Some e)),
              self'\<lparr>self_start := old_start\<rparr>, w')
         | (Inr u, self', w') \<Rightarrow> (Inr u, self', w'))"

text \<open>The setter of \<^verbatim>\<open>end\<close> (lines 147-155).\<close>

definition end_setter ::
  "env \<Rightarrow> string \<Rightarrow> dataset \<Rightarrow> world \<Rightarrow> (exn + unit) \<times> dataset \<times> world" where
  "end_setter env new_value self w =
     (let old_end = self_end self
      in case load_temps env (self\<lparr>self_end := new_value\<rparr>) w of
           (Inl e, self', w') \<Rightarrow>
             (Inl (Exn LookupError
                     (''Can't load data for end date '' @ new_value @ '': '' @ msg e)
                     (Some e)),
              self'\<lparr>self_end := old_end\<rparr>, w')
         | (Inr u, self', w') \<Rightarrow> (Inr u, self', w'))"

section \<open>The interactive session\<close>

text \<open>\<^verbatim>\<open>create_dataset\<close> (lines 18-26). \<^verbatim>\<open>None\<close> is the result after a \<open>LookupError\<close>.\<close>

definition create_dataset :: "env \<Rightarrow> world \<Rightarrow> (exn + dataset option) \<times> world" where
  "create_dataset env w =
     (case input ''Please enter a zip code: '' w of
        (Inl e, w1) \<Rightarrow> (Inl e, w1)
      | (Inr zip_code, w1) \<Rightarrow>
          (case HistoricalTemps_init env zip_code default_start default_end w1 of
             (Inr dataset, w2) \<Rightarrow> (Inr (Some dataset), w2)
           | (Inl e, w2) \<Rightarrow>
               if is_LookupError (cls e)
               then (Inr None,
                     print ''Error: The entered zip code is invalid. Please try again.'' w2)
               else (Inl e, w2)))"

text \<open>
  \<^verbatim>\<open>change_dates\<close> (lines 300-325). Each \<^verbatim>\<open>try\<close> block holds the prompt and the
  assignment; its handler catches \<open>LookupError\<close> and its subclasses only.
\<close>

definition change_dates :: "env \<Rightarrow> dataset \<Rightarrow> world \<Rightarrow> (exn + unit) \<times> dataset \<times> world" where
  "change_dates env dataset w =
     (if \<not> is_data_loaded dataset
      then (Inr (), dataset, print ''The tempe data is not loaded. Please check dataset.'' w)
      else
        (case (case input ''Enter the new start date (YYYY-MM-DD): '' w of
                 (Inl e, w1) \<Rightarrow> (Inl e, dataset, w1)
               | (Inr new_start, w1) \<Rightarrow> start_setter env new_start dataset w1) of
           (Inl e, dataset1, w2) \<Rightarrow>
             if is_LookupError (cls e)
             then (Inr (), dataset1, print (''Failed to change the start date: '' @ msg e) w2)
             else (Inl e, dataset1, w2)
         | (Inr u, dataset1, w2) \<Rightarrow>
             (case (case input ''Enter the new end date (YYYY-MM-DD): '' w2 of
                      (Inl e, w3) \<Rightarrow> (Inl e, dataset1, w3)
                    | (Inr new_end, w3) \<Rightarrow> end_setter env new_end dataset1 w3) of
                (Inl e, dataset2, w4) \<Rightarrow>
                  if is_LookupError (cls e)
                  then (Inr (), dataset2,
                        print (''Failed to change the end date: '' @ msg e) w4)
                  else (Inl e, dataset2, w4)
              | (Inr u', dataset2, w4) \<Rightarrow>
                  (Inr (), dataset2, print ''Dates successfully changed.'' w4))))"

text \<open>
  The three reports (\<^verbatim>\<open>compare_average_temps\<close>, \<^verbatim>\<open>print_extreme_days\<close>,
  \<^verbatim>\<open>print_top_five_days\<close>, lines 233-297) read the datasets they are given, read standard
  input and print formatted floats; they assign to no attribute. They are parameters of
  the menu: from the datasets and the world to an exception or nothing, and the world.
\<close>

record reports =
  compare_average_temps :: "dataset \<Rightarrow> dataset \<Rightarrow> world \<Rightarrow> (exn + unit) \<times> world"
  print_extreme_days :: "dataset \<Rightarrow> world \<Rightarrow> (exn + unit) \<times> world"
  print_top_five_days :: "dataset \<Rightarrow> world \<Rightarrow> (exn + unit) \<times> world"

datatype loop_ctl = Continue | Break

text \<open>
  The \<^verbatim>\<open>match\<close> statement of \<^verbatim>\<open>menu\<close> (lines 353-386), for the option read: what the loop
  does next, the two slots \<^verbatim>\<open>dataset_one\<close> and \<^verbatim>\<open>dataset_two\<close>, and the world. An assignment
  to a slot happens only when its right-hand side has returned. \<^verbatim>\<open>change_dates\<close> mutates
  the object the slot refers to.
\<close>

definition menu_match ::
  "reports \<Rightarrow> env \<Rightarrow> int \<Rightarrow> dataset option \<Rightarrow> dataset option \<Rightarrow> world
   \<Rightarrow> (exn + loop_ctl) \<times> dataset option \<times> dataset option \<times> world" where
  "menu_match rep env option dataset_one dataset_two w =
     (if option = 1 then
        (case create_dataset env w of
           (Inl e, w') \<Rightarrow> (Inl e, dataset_one, dataset_two, w')
         | (Inr d, w') \<Rightarrow> (Inr Continue, d, dataset_two, w'))
      else if option = 2 then
        (case create_dataset env w of
           (Inl e, w') \<Rightarrow> (Inl e, dataset_one, dataset_two, w')
         | (Inr d, w') \<Rightarrow> (Inr Continue, dataset_one, d, w'))
      else if option = 3 then
        (case (dataset_one, dataset_two) of
           (Some d1, Some d2) \<Rightarrow>
             (case compare_average_temps rep d1 d2 w of
                (Inl e, w') \<Rightarrow> (Inl e, dataset_one, dataset_two, w')
              | (Inr u, w') \<Rightarrow> (Inr Continue, dataset_one, dataset_two, w'))
         | _ \<Rightarrow> (Inr Continue, dataset_one, dataset_two,
                 print ''Both datasets must be loaded before comparing.'' w))
      else if option = 4 then
        (case dataset_one of
           Some d1 \<Rightarrow>
             (case print_extreme_days rep d1 w of
                (Inl e, w') \<Rightarrow> (Inl e, dataset_one, dataset_two, w')
              | (Inr u, w') \<Rightarrow> (Inr Continue, dataset_one, dataset_two, w'))
         | None \<Rightarrow> (Inr Continue, dataset_one, dataset_two,
                    print ''Dataset one must be loaded first.'' w))
      else if option = 5 then
        (case dataset_one of
           Some d1 \<Rightarrow>
             (case print_top_five_days rep d1 w of
                (Inl e, w') \<Rightarrow> (Inl e, dataset_one, dataset_two, w')
              | (Inr u, w') \<Rightarrow> (Inr Continue, dataset_one, dataset_two, w'))
         | None \<Rightarrow> (Inr Continue, dataset_one, dataset_two,
                    print ''Dataset one must be loaded first.'' w))
      else if option = 6 then
        (case dataset_one of
           Some d1 \<Rightarrow>
             (case change_dates env d1 w of
                (Inl e, d1', w') \<Rightarrow> (Inl e, Some d1', dataset_two, w')
              | (Inr u, d1', w') \<Rightarrow> (Inr Continue, Some d1', dataset_two, w'))
         | None \<Rightarrow> (Inr Continue, dataset_one, dataset_two,
                    print ''Dataset one must be loaded first.'' w))
      else if option = 7 then
        (case dataset_two of
           Some d2 \<Rightarrow>
             (case change_dates env d2 w of
                (Inl e, d2', w') \<Rightarrow> (Inl e, dataset_one, Some d2', w')
              | (Inr u, d2', w') \<Rightarrow> (Inr Continue, dataset_one, Some d2', w'))
         | None \<Rightarrow> (Inr Continue, dataset_one, dataset_two,
                    print ''Dataset two must be loaded first.'' w))
      else if option = 9 then (Inr Break, dataset_one, dataset_two, w)
      else (Inr Continue, dataset_one, dataset_two,
            print ''That wasn't a valid selection'' w))"

section \<open>Names used in the statements\<close>

text \<open>The object \<^verbatim>\<open>__init__\<close> has built at line 62, before the first load, from a row.\<close>

definition initial_object :: "string \<Rightarrow> string \<Rightarrow> string \<Rightarrow> location \<Rightarrow> dataset" where
  "initial_object zip_code start_date end_date loc =
     \<lparr>self_zip_code = zip_code, self_start = start_date, self_end = end_date,
      self_lat = PFloat (latitude loc), self_lon = PFloat (longitude loc),
      self_loc_name = place_name loc, self_temp_list = None\<rparr>"

text \<open>Texts the session prints.\<close>

definition invalid_zip_message :: string where
  "invalid_zip_message = ''Error: The entered zip code is invalid. Please try again.''"

definition start_prompt :: string where
  "start_prompt = ''Enter the new start date (YYYY-MM-DD): ''"

definition end_prompt :: string where
  "end_prompt = ''Enter the new end date (YYYY-MM-DD): ''"

text \<open>
  A temperature exceeds a threshold, and one temperature is at most another, as
  \<^verbatim>\<open>>\<close> and \<^verbatim>\<open><=\<close> decide for numbers; false when one side is not a number.
\<close>

definition exceeds :: "json \<Rightarrow> pyfloat \<Rightarrow> bool" where
  "exceeds temp threshold = (case as_value temp of Some v \<Rightarrow> float_lt threshold v | None \<Rightarrow> False)"

definition temp_le :: "json \<Rightarrow> json \<Rightarrow> bool" where
  "temp_le a b =
     (case (as_value a, as_value b) of (Some u, Some v) \<Rightarrow> float_le u v | _ \<Rightarrow> False)"

section \<open>Sample data\<close>

text \<open>
  The scenario of the specification, three days with the temperatures 60, 75 and 50, and a
  fourth day that repeats 75 as an int, to show how ties are ordered.
\<close>

definition sample_payload :: "(json \<times> json) list" where
  "sample_payload =
     [(JStr ''D1'', JFloat (Finite 60)), (JStr ''D2'', JFloat (Finite 75)),
      (JStr ''D3'', JFloat (Finite 50)), (JStr ''D4'', JInt 75)]"

definition sample_temps :: dataset where
  "sample_temps =
     \<lparr>self_zip_code = ''90210'', self_start = ''2023-08-01'', self_end = ''2023-08-04'',
      self_lat = PFloat (Finite (340901 / 10000)), self_lon = PFloat (Finite (- 1184065 / 10000)),
      self_loc_name = PStr ''Beverly Hills'', self_temp_list = Some sample_payload\<rparr>"

definition empty_temps :: dataset where
  "empty_temps = sample_temps\<lparr>self_temp_list := Some []\<rparr>"

text \<open>A payload with a day for which the archive has no value (\<^verbatim>\<open>null\<close>).\<close>

definition null_payload :: "(json \<times> json) list" where
  "null_payload = [(JStr ''D1'', JFloat (Finite 60)), (JStr ''D2'', JNull)]"

definition null_temps :: dataset where
  "null_temps = sample_temps\<lparr>self_temp_list := Some null_payload\<rparr>"







text \<open>
  An interpreter for the samples: for two entries the sort compares the key of the first
  with the key of the second, and the message names their types in that order.
\<close>

definition sample_interpreter :: interpreter where
  "sample_interpreter =
     \<lparr>sort_message = (\<lambda>keys. quoted ''<'' @ '' not supported between instances of ''
                         @ quoted (type_name (keys ! 0)) @ '' and ''
                         @ quoted (type_name (keys ! 1))),
      sort_unordered = (\<lambda>xs. Inr xs)\<rparr>"

text \<open>
  A geocoder that knows one postal code, answers \<open>00000\<close> with a row of NaN (as
  \<^verbatim>\<open>pgeocode\<close> does for a code it does not know) and anything else with an empty row.
\<close>

definition sample_row :: location where
  "sample_row = \<lparr>loc_empty = False, latitude = Finite (340901 / 10000),
                longitude = Finite (- 1184065 / 10000), place_name = PStr ''Beverly Hills''\<rparr>"

definition nan_row :: location where
  "nan_row = \<lparr>loc_empty = False, latitude = NaN, longitude = NaN, place_name = PFloat NaN\<rparr>"

definition empty_row :: location where
  "empty_row = \<lparr>loc_empty = True, latitude = NaN, longitude = NaN, place_name = PFloat NaN\<rparr>"

definition sample_geocoder :: "string \<Rightarrow> exn + location" where
  "sample_geocoder zip_code =
     (if zip_code = ''90210'' then Inr sample_row
      else if zip_code = ''00000'' then Inr nan_row
      else Inr empty_row)"

text \<open>
  An archive that cannot be reached for a range starting or ending in 1900, answers a
  range starting on 2023-08-02 with two days and any other range with three dates and
  only two temperatures.
\<close>

definition sample_archive :: "nat \<Rightarrow> params \<Rightarrow> exn + string" where
  "sample_archive n p =
     (if param_start_date p = ''1900-01-01'' \<or> param_end_date p = ''1900-01-01''
      then Inl (Exn OSError ''Connection refused'' None)
      else if param_start_date p = ''2023-08-02'' then Inr ''two days''
      else Inr ''three dates, two temperatures'')"

definition sample_json_loads :: "string \<Rightarrow> exn + json" where
  "sample_json_loads data =
     (if data = ''two days''
      then Inr (JObj [(''daily'',
             JObj [(''time'', JArr [JStr ''2023-08-02'', JStr ''2023-08-03'']),
                   (''temperature_2m_max'', JArr [JFloat (Finite 75), JFloat (Finite 50)])])])
      else if data = ''three dates, two temperatures''
      then Inr (JObj [(''daily'',
             JObj [(''time'', JArr [JStr ''D1'', JStr ''D2'', JStr ''D3'']),
                   (''temperature_2m_max'', JArr [JFloat (Finite 60), JFloat (Finite 75)])])])
      else Inl (Exn ValueError ''Expecting value: line 1 column 1 (char 0)'' None))"

definition sample_env :: env where
  "sample_env =
     \<lparr>query_postal_code = sample_geocoder, requests_get = sample_archive,
      json_loads = sample_json_loads\<rparr>"

text \<open>The same collaborators with an archive that is never reachable.\<close>

definition offline_env :: env where
  "offline_env =
     sample_env\<lparr>requests_get := (\<lambda>n p. Inl (Exn OSError ''Connection refused'' None))\<rparr>"

definition two_days :: "(json \<times> json) list" where
  "two_days = [(JStr ''2023-08-02'', JFloat (Finite 75)), (JStr ''2023-08-03'', JFloat (Finite 50))]"

definition sample_dataset :: dataset where
  "sample_dataset =
     \<lparr>self_zip_code = ''90210'', self_start = ''2023-08-01'', self_end = ''2023-08-03'',
      self_lat = PFloat (Finite (340901 / 10000)), self_lon = PFloat (Finite (- 1184065 / 10000)),
      self_loc_name = PStr ''Beverly Hills'',
      self_temp_list = Some [(JStr ''D1'', JFloat (Finite 60)), (JStr ''D2'', JFloat (Finite 75))]\<rparr>"

text \<open>The request for the sample location and a range.\<close>

definition sample_request :: "string \<Rightarrow> string \<Rightarrow> params" where
  "sample_request start_date end_date =
     \<lparr>param_latitude = PFloat (Finite (340901 / 10000)),
      param_longitude = PFloat (Finite (- 1184065 / 10000)),
      param_start_date = start_date, param_end_date = end_date,
      param_daily = ''temperature_2m_max'', param_timezone = ''America/Los_Angeles''\<rparr>"

definition sample_world :: "string list \<Rightarrow> world" where
  "sample_world lines = \<lparr>stdin = lines, stdout = [], requests = []\<rparr>"

definition no_reports :: reports where
  "no_reports =
     \<lparr>compare_average_temps = (\<lambda>d1 d2 w. (Inr (), w)),
      print_extreme_days = (\<lambda>d w. (Inr (), w)),
      print_top_five_days = (\<lambda>d w. (Inr (), w))\<rparr>"

section \<open>Properties of the numbers\<close>

subsection \<open>Rounding\<close>













subsection \<open>The order of the temperatures\<close>

lemma rank_le: "u \<noteq> NaN \<Longrightarrow> v \<noteq> NaN \<Longrightarrow> rank u \<le> rank v \<longleftrightarrow> float_le u v"
  by (cases u; cases v) (auto simp: float_le_def)

lemma rank_eq: "u \<noteq> NaN \<Longrightarrow> v \<noteq> NaN \<Longrightarrow> rank u = rank v \<longleftrightarrow> u = v"
  by (cases u; cases v) auto

lemma temp_rank_le:
  "ordered_number a \<Longrightarrow> ordered_number b \<Longrightarrow> temp_rank a \<le> temp_rank b \<longleftrightarrow> temp_le a b"
  by (auto simp: ordered_number_def temp_rank_def temp_le_def rank_le split: option.splits)

lemma temp_rank_eq:
  "ordered_number a \<Longrightarrow> v \<noteq> NaN \<Longrightarrow> temp_rank a = rank v \<longleftrightarrow> as_value a = Some v"
  by (auto simp: ordered_number_def temp_rank_def rank_eq split: option.splits)

lemma float_le_not_lt: "float_le v t \<Longrightarrow> \<not> float_lt t v"
  by (cases v; cases t) (auto simp: float_le_def)

section \<open>Properties of the queries\<close>

subsection \<open>Sorting and slicing\<close>

lemma sorted_numbers:
  assumes "\<forall>p\<in>set xs. ordered_number (snd p)"
  shows "sorted_key_reverse interp xs = Inr (rev (sort_key (\<lambda>x. temp_rank (snd x)) (rev xs)))"
proof (cases "length xs \<le> 1")
  case True
  then have "xs = [] \<or> (\<exists>x. xs = [x])"
    by (cases xs) (auto simp: length_Suc_conv)
  then have "rev (sort_key (\<lambda>x. temp_rank (snd x)) (rev xs)) = xs" by auto
  with True show ?thesis by (simp add: sorted_key_reverse_def)
next
  case False
  with assms show ?thesis by (simp add: sorted_key_reverse_def list_all_iff)
qed

lemma sorted_numbers_desc:
  assumes "\<forall>p\<in>set xs. ordered_number (snd p)"
  shows "sorted_wrt (\<lambda>a b. temp_le (snd b) (snd a)) (rev (sort_key (\<lambda>x. temp_rank (snd x)) (rev xs)))"
proof -
  let ?f = "\<lambda>x. temp_rank (snd x)"
  let ?s = "sort_key ?f (rev xs)"
  have "sorted (map ?f ?s)" by (rule sorted_sort_key)
  then have asc: "sorted_wrt (\<lambda>a b. ?f a \<le> ?f b) ?s" by (simp add: sorted_wrt_map)
  have ord: "ordered_number (snd p)" if "p \<in> set ?s" for p
    using assms that by simp
  have "sorted_wrt (\<lambda>a b. temp_le (snd a) (snd b)) ?s"
  proof (rule sorted_wrt_mono_rel [OF _ asc])
    fix x y
    assume "x \<in> set ?s" "y \<in> set ?s" "?f x \<le> ?f y"
    then show "temp_le (snd x) (snd y)"
      using temp_rank_le [OF ord ord, of x y] by simp
  qed
  then show ?thesis by (simp add: sorted_wrt_rev)
qed

lemma sorted_numbers_stable:
  assumes "\<forall>p\<in>set xs. ordered_number (snd p)"
  shows "filter (\<lambda>p. as_value (snd p) = Some v) (rev (sort_key (\<lambda>x. temp_rank (snd x)) (rev xs)))
           = filter (\<lambda>p. as_value (snd p) = Some v) xs"
proof (cases "v = NaN")
  case True
  have "\<not> as_value (snd p) = Some v" if "p \<in> set xs" for p
    using assms that True by (auto simp: ordered_number_def)
  then show ?thesis by (simp add: filter_empty_conv [THEN iffD2])
next
  case False
  let ?f = "\<lambda>x. temp_rank (snd x)"
  let ?s = "rev (sort_key ?f (rev xs))"
  have same: "(as_value (snd p) = Some v) = (?f p = rank v)" if "p \<in> set xs" for p
    using assms that False by (simp add: temp_rank_eq)
  have "filter (\<lambda>p. as_value (snd p) = Some v) ?s = filter (\<lambda>p. ?f p = rank v) ?s"
    by (rule filter_cong) (simp_all add: same)
  also have "\<dots> = filter (\<lambda>p. ?f p = rank v) xs"
    by (simp add: rev_filter [symmetric] sort_key_stable)
  also have "\<dots> = filter (\<lambda>p. as_value (snd p) = Some v) xs"
    by (rule filter_cong) (simp_all add: same)
  finally show ?thesis .
qed

lemma take_is_highest:
  assumes "sorted_wrt (\<lambda>a b. R b a) zs"
  shows "\<forall>y\<in>set (take n zs). \<forall>x\<in>#mset zs - mset (take n zs). R x y"
proof -
  have split: "zs = take n zs @ drop n zs" by simp
  have "mset zs = mset (take n zs) + mset (drop n zs)"
    by (metis split mset_append)
  then have rest: "mset zs - mset (take n zs) = mset (drop n zs)" by simp
  from assms have "sorted_wrt (\<lambda>a b. R b a) (take n zs @ drop n zs)" by simp
  then have "\<forall>y\<in>set (take n zs). \<forall>x\<in>set (drop n zs). R x y"
    unfolding sorted_wrt_append by blast
  with rest show ?thesis by simp
qed

lemma filter_take_prefix: "prefix (filter P (take n zs)) (filter P zs)"
proof -
  have "filter P zs = filter P (take n zs) @ filter P (drop n zs)"
    by (metis append_take_drop_id filter_append)
  then show ?thesis by (simp add: prefix_def)
qed

lemma sorted_wrt_take_desc:
  "sorted_wrt R zs \<Longrightarrow> sorted_wrt R (take n zs)"
  by (metis append_take_drop_id sorted_wrt_append)

lemma sorted_null_raises:
  assumes "2 \<le> length xs" and "\<exists>p\<in>set xs. snd p = JNull"
  shows "sorted_key_reverse interp xs = Inl (Exn TypeError (sort_message interp (map snd xs)) None)"
proof -
  from assms(2) obtain p where p: "p \<in> set xs" "snd p = JNull" by blast
  then have "\<not> ordered_number (snd p)" "never_ordered (snd p)"
    by (simp_all add: ordered_number_def as_value_def)
  with p(1) have "\<not> list_all (\<lambda>x. ordered_number (snd x)) xs"
    "list_ex (\<lambda>x. never_ordered (snd x)) xs"
    by (auto simp: list_all_iff list_ex_iff)
  with assms(1) show ?thesis by (simp add: sorted_key_reverse_def)
qed

lemma sample_numbers: "\<forall>p\<in>set sample_payload. ordered_number (snd p)"
  by (simp add: sample_payload_def ordered_number_def as_value_def)

lemma sample_sorted:
  "sorted_key_reverse interp sample_payload
     = Inr [(JStr ''D2'', JFloat (Finite 75)), (JStr ''D4'', JInt 75),
            (JStr ''D1'', JFloat (Finite 60)), (JStr ''D3'', JFloat (Finite 50))]"
  by (simp add: sorted_key_reverse_def sample_payload_def ordered_number_def as_value_def
      temp_rank_def)

subsection \<open>The hottest days\<close>

text \<open>
  Claim C3, amended. For every loaded payload whose temperatures are all numbers other
  than NaN and every integer \<open>n \<ge> 0\<close>, \<^verbatim>\<open>top_x_days(n)\<close> returns a list of length
  \<open>min n |payload|\<close>, sorted descending by temperature, whose entries are entries of the
  payload (with multiplicity) and are at least as hot as every entry left out; among
  equal temperatures the entries returned are the first ones of the payload, in their
  original order; and when \<open>n\<close> is at least the size of the payload the whole payload is
  returned (in that order).
\<close>

theorem top_x_days_nonneg:
  assumes loaded: "self_temp_list self = Some xs"
    and numbers: "\<forall>p\<in>set xs. ordered_number (snd p)"
    and nonneg: "0 \<le> n"
  shows "\<exists>ys. top_x_days interp self n = Inr ys
           \<and> length ys = min (nat n) (length xs)
           \<and> sorted_wrt (\<lambda>a b. temp_le (snd b) (snd a)) ys
           \<and> mset ys \<subseteq># mset xs
           \<and> (\<forall>y\<in>set ys. \<forall>x\<in>#mset xs - mset ys. temp_le (snd x) (snd y))
           \<and> (\<forall>v. prefix (filter (\<lambda>p. as_value (snd p) = Some v) ys)
                         (filter (\<lambda>p. as_value (snd p) = Some v) xs))
           \<and> (int (length xs) \<le> n \<longrightarrow> sorted_key_reverse interp xs = Inr ys \<and> mset ys = mset xs)"
proof -
  let ?zs = "rev (sort_key (\<lambda>x. temp_rank (snd x)) (rev xs))"
  let ?ys = "take (nat n) ?zs"
  have srt: "sorted_key_reverse interp xs = Inr ?zs"
    using numbers by (rule sorted_numbers)
  have mz: "mset ?zs = mset xs" by simp
  have res: "top_x_days interp self n = Inr ?ys"
    using loaded nonneg srt by (simp add: top_x_days_def slice_to_def)
  have len: "length ?ys = min (nat n) (length xs)"
    by (simp add: min.commute)
  have dz: "sorted_wrt (\<lambda>a b. temp_le (snd b) (snd a)) ?zs"
    using numbers by (rule sorted_numbers_desc)
  then have desc: "sorted_wrt (\<lambda>a b. temp_le (snd b) (snd a)) ?ys"
    by (rule sorted_wrt_take_desc)
  have sub: "mset ?ys \<subseteq># mset xs"
    by (metis append_take_drop_id mset_append mz mset_subset_eq_add_left)
  from take_is_highest [OF dz]
  have high: "\<forall>y\<in>set ?ys. \<forall>x\<in>#mset xs - mset ?ys. temp_le (snd x) (snd y)"
    by (simp only: mz)
  have ties: "\<forall>v. prefix (filter (\<lambda>p. as_value (snd p) = Some v) ?ys)
                         (filter (\<lambda>p. as_value (snd p) = Some v) xs)"
  proof
    fix v
    have "prefix (filter (\<lambda>p. as_value (snd p) = Some v) ?ys)
                 (filter (\<lambda>p. as_value (snd p) = Some v) ?zs)"
      by (rule filter_take_prefix)
    then show "prefix (filter (\<lambda>p. as_value (snd p) = Some v) ?ys)
                 (filter (\<lambda>p. as_value (snd p) = Some v) xs)"
      by (simp only: sorted_numbers_stable [OF numbers])
  qed
  have full: "int (length xs) \<le> n \<longrightarrow> sorted_key_reverse interp xs = Inr ?ys \<and> mset ?ys = mset xs"
    using srt by simp
  from res len desc sub high ties full show ?thesis by blast
qed

theorem top_x_days_nonneg_witness:
  "self_temp_list sample_temps = Some sample_payload \<and> (0::int) \<le> 3
   \<and> top_x_days sample_interpreter sample_temps 3
       = Inr [(JStr ''D2'', JFloat (Finite 75)), (JStr ''D4'', JInt 75),
              (JStr ''D1'', JFloat (Finite 60))]
   \<and> (\<exists>ys. top_x_days sample_interpreter sample_temps 3 = Inr ys
           \<and> length ys = min (nat 3) (length sample_payload)
           \<and> sorted_wrt (\<lambda>a b. temp_le (snd b) (snd a)) ys
           \<and> mset ys \<subseteq># mset sample_payload
           \<and> prefix (filter (\<lambda>p. as_value (snd p) = Some (Finite 75)) ys)
                     (filter (\<lambda>p. as_value (snd p) = Some (Finite 75)) sample_payload))
   \<and> (0::int) \<le> 10 \<and> int (length sample_payload) \<le> 10
   \<and> top_x_days sample_interpreter sample_temps 10
       = Inr [(JStr ''D2'', JFloat (Finite 75)), (JStr ''D4'', JInt 75),
              (JStr ''D1'', JFloat (Finite 60)), (JStr ''D3'', JFloat (Finite 50))]
   \<and> mset [(JStr ''D2'', JFloat (Finite 75)), (JStr ''D4'', JInt 75),
             (JStr ''D1'', JFloat (Finite 60)), (JStr ''D3'', JFloat (Finite 50))]
       = mset sample_payload"
proof -
  have h1: "self_temp_list sample_temps = Some sample_payload"
    by (simp add: sample_temps_def)
  have h2: "(0::int) \<le> 3" and h3: "(0::int) \<le> 10" by simp_all
  have full: "int (length sample_payload) \<le> 10" by (simp add: sample_payload_def)
  have v: "top_x_days sample_interpreter sample_temps 3
       = Inr [(JStr ''D2'', JFloat (Finite 75)), (JStr ''D4'', JInt 75),
              (JStr ''D1'', JFloat (Finite 60))]"
    by (simp add: top_x_days_def h1 slice_to_def sample_sorted)
  from top_x_days_nonneg [OF h1 sample_numbers h2, of sample_interpreter] v
  have cut: "\<exists>ys. top_x_days sample_interpreter sample_temps 3 = Inr ys
           \<and> length ys = min (nat 3) (length sample_payload)
           \<and> sorted_wrt (\<lambda>a b. temp_le (snd b) (snd a)) ys
           \<and> mset ys \<subseteq># mset sample_payload
           \<and> prefix (filter (\<lambda>p. as_value (snd p) = Some (Finite 75)) ys)
                     (filter (\<lambda>p. as_value (snd p) = Some (Finite 75)) sample_payload)"
    by blast
  from top_x_days_nonneg [OF h1 sample_numbers h3, of sample_interpreter] full obtain ys where
    ys: "top_x_days sample_interpreter sample_temps 10 = Inr ys"
      "sorted_key_reverse sample_interpreter sample_payload = Inr ys"
      "mset ys = mset sample_payload"
    by blast
  from ys(2) have "ys = [(JStr ''D2'', JFloat (Finite 75)), (JStr ''D4'', JInt 75),
              (JStr ''D1'', JFloat (Finite 60)), (JStr ''D3'', JFloat (Finite 50))]"
    by (simp add: sample_sorted)
  with ys have all: "top_x_days sample_interpreter sample_temps 10
       = Inr [(JStr ''D2'', JFloat (Finite 75)), (JStr ''D4'', JInt 75),
              (JStr ''D1'', JFloat (Finite 60)), (JStr ''D3'', JFloat (Finite 50))]"
    "mset [(JStr ''D2'', JFloat (Finite 75)), (JStr ''D4'', JInt 75),
             (JStr ''D1'', JFloat (Finite 60)), (JStr ''D3'', JFloat (Finite 50))]
       = mset sample_payload"
    by simp_all
  from h1 h2 h3 full v cut all show ?thesis by blast
qed

text \<open>
  With \<open>n = -1\<close> the slice counts from the end, and the four-day sample gives three
  entries: the sorted list without its last element. And with a day without a value
  among two days the sort raises \<open>TypeError\<close> and nothing is returned.
\<close>

theorem top_x_days_counterexample:
  "top_x_days sample_interpreter sample_temps (- 1)
     = Inr [(JStr ''D2'', JFloat (Finite 75)), (JStr ''D4'', JInt 75),
            (JStr ''D1'', JFloat (Finite 60))]
   \<and> int (length [(JStr ''D2'', JFloat (Finite 75)), (JStr ''D4'', JInt 75),
                    (JStr ''D1'', JFloat (Finite 60))])
       \<noteq> min (- 1) (int (length sample_payload))
   \<and> self_temp_list null_temps = Some [(JStr ''D1'', JFloat (Finite 60)), (JStr ''D2'', JNull)]
   \<and> top_x_days sample_interpreter null_temps 1
       = Inl (Exn TypeError
                (quoted ''<'' @ '' not supported between instances of '' @ quoted ''float''
                 @ '' and '' @ quoted ''NoneType'') None)"
proof -
  have h1: "self_temp_list sample_temps = Some sample_payload"
    by (simp add: sample_temps_def)
  have a: "top_x_days sample_interpreter sample_temps (- 1)
     = Inr [(JStr ''D2'', JFloat (Finite 75)), (JStr ''D4'', JInt 75),
            (JStr ''D1'', JFloat (Finite 60))]"
    by (simp add: top_x_days_def h1 slice_to_def sample_sorted)
  have h2: "self_temp_list null_temps = Some [(JStr ''D1'', JFloat (Finite 60)), (JStr ''D2'', JNull)]"
    by (simp add: null_temps_def null_payload_def)
  have b: "top_x_days sample_interpreter null_temps 1
       = Inl (Exn TypeError
                (quoted ''<'' @ '' not supported between instances of '' @ quoted ''float''
                 @ '' and '' @ quoted ''NoneType'') None)"
    by (simp add: top_x_days_def h2 sorted_key_reverse_def ordered_number_def as_value_def
        sample_interpreter_def)
  from a h2 b show ?thesis by (simp add: sample_payload_def)
qed

subsection \<open>The days above a threshold\<close>

lemma extreme_loop_numbers:
  "\<forall>p\<in>set xs. as_value (snd p) \<noteq> None \<Longrightarrow>
     extreme_loop t xs = Inr (filter (\<lambda>p. exceeds (snd p) t) xs)"
  by (induction xs) (auto simp: py_gt_def exceeds_def)

lemma extreme_loop_not_number:
  "\<exists>p\<in>set xs. as_value (snd p) = None \<Longrightarrow> \<exists>m. extreme_loop t xs = Inl (Exn TypeError m None)"
proof (induction xs)
  case Nil
  then show ?case by simp
next
  case (Cons p xs)
  obtain date temp where p: "p = (date, temp)" by (cases p)
  show ?case
  proof (cases "as_value temp")
    case None
    then show ?thesis by (simp add: p py_gt_def)
  next
    case (Some v)
    with Cons.prems p have "\<exists>q\<in>set xs. as_value (snd q) = None" by auto
    from Cons.IH [OF this] obtain m where "extreme_loop t xs = Inl (Exn TypeError m None)" ..
    with Some show ?thesis by (simp add: p py_gt_def)
  qed
qed

text \<open>
  Claim C4, amended. For every loaded payload whose temperatures are all numbers and
  every float threshold \<open>t\<close>, \<^verbatim>\<open>extreme_days(t)\<close> returns exactly the pairs whose temperature
  is strictly greater than \<open>t\<close> (each as often as the payload has it, none other), in the
  order of the payload; for a \<open>t\<close> that every temperature is at most, as the maximum
  temperature of the payload is, the result is empty. When some temperature is not a
  number, \<^verbatim>\<open>extreme_days(t)\<close> raises \<open>TypeError\<close>.
\<close>

theorem extreme_days_numbers:
  assumes loaded: "self_temp_list self = Some xs"
  shows "((\<forall>p\<in>set xs. as_value (snd p) \<noteq> None) \<longrightarrow>
            (\<exists>ys. extreme_days self t = Inr ys
               \<and> subseq ys xs
               \<and> (\<forall>p. count (mset ys) p = (if exceeds (snd p) t then count (mset xs) p else 0))
               \<and> ((\<forall>p\<in>set xs. \<exists>v. as_value (snd p) = Some v \<and> float_le v t) \<longrightarrow> ys = [])))
       \<and> ((\<exists>p\<in>set xs. as_value (snd p) = None) \<longrightarrow>
            (\<exists>m. extreme_days self t = Inl (Exn TypeError m None)))"
proof (intro conjI impI)
  assume numbers: "\<forall>p\<in>set xs. as_value (snd p) \<noteq> None"
  let ?ys = "filter (\<lambda>p. exceeds (snd p) t) xs"
  have res: "extreme_days self t = Inr ?ys"
    using loaded extreme_loop_numbers [OF numbers] by (simp add: extreme_days_def)
  have sub: "subseq ?ys xs" by simp
  have cnt: "\<forall>p. count (mset ?ys) p = (if exceeds (snd p) t then count (mset xs) p else 0)"
    by simp
  have top: "(\<forall>p\<in>set xs. \<exists>v. as_value (snd p) = Some v \<and> float_le v t) \<longrightarrow> ?ys = []"
  proof
    assume bound: "\<forall>p\<in>set xs. \<exists>v. as_value (snd p) = Some v \<and> float_le v t"
    have "\<not> exceeds (snd p) t" if "p \<in> set xs" for p
    proof -
      from bound that obtain v where "as_value (snd p) = Some v" "float_le v t" by blast
      then show ?thesis by (simp add: exceeds_def float_le_not_lt)
    qed
    then show "?ys = []" by (simp add: filter_empty_conv)
  qed
  from res sub cnt top
  show "\<exists>ys. extreme_days self t = Inr ys
               \<and> subseq ys xs
               \<and> (\<forall>p. count (mset ys) p = (if exceeds (snd p) t then count (mset xs) p else 0))
               \<and> ((\<forall>p\<in>set xs. \<exists>v. as_value (snd p) = Some v \<and> float_le v t) \<longrightarrow> ys = [])"
    by blast
next
  assume "\<exists>p\<in>set xs. as_value (snd p) = None"
  from extreme_loop_not_number [OF this]
  show "\<exists>m. extreme_days self t = Inl (Exn TypeError m None)"
    using loaded by (simp add: extreme_days_def)
qed

theorem extreme_days_numbers_witness:
  "self_temp_list sample_temps = Some sample_payload
   \<and> extreme_days sample_temps (Finite 55)
       = Inr [(JStr ''D1'', JFloat (Finite 60)), (JStr ''D2'', JFloat (Finite 75)),
              (JStr ''D4'', JInt 75)]
   \<and> extreme_days sample_temps (Finite 75) = Inr []
   \<and> self_temp_list null_temps = Some null_payload
   \<and> (\<exists>m. extreme_days null_temps (Finite 55) = Inl (Exn TypeError m None))"
proof -
  have h1: "self_temp_list sample_temps = Some sample_payload"
    by (simp add: sample_temps_def)
  have h2: "self_temp_list null_temps = Some null_payload"
    by (simp add: null_temps_def)
  have num: "\<forall>p\<in>set sample_payload. as_value (snd p) \<noteq> None"
    by (simp add: sample_payload_def as_value_def)
  have bound: "\<forall>p\<in>set sample_payload. \<exists>v. as_value (snd p) = Some v \<and> float_le v (Finite 75)"
    by (simp add: sample_payload_def as_value_def float_le_def)
  have null: "\<exists>p\<in>set null_payload. as_value (snd p) = None"
    by (simp add: null_payload_def as_value_def)
  have v: "extreme_days sample_temps (Finite 55)
       = Inr [(JStr ''D1'', JFloat (Finite 60)), (JStr ''D2'', JFloat (Finite 75)),
              (JStr ''D4'', JInt 75)]"
    by (simp add: extreme_days_def h1 sample_payload_def py_gt_def as_value_def)
  from extreme_days_numbers [OF h1, of "Finite 75"] num bound
  have top: "extreme_days sample_temps (Finite 75) = Inr []" by blast
  from extreme_days_numbers [OF h2, of "Finite 55"] null
  have err: "\<exists>m. extreme_days null_temps (Finite 55) = Inl (Exn TypeError m None)" by blast
  from h1 h2 v top err show ?thesis by blast
qed

text \<open>A loaded payload with a day without a value: the comparison raises.\<close>

theorem extreme_days_null_counterexample:
  "self_temp_list null_temps = Some [(JStr ''D1'', JFloat (Finite 60)), (JStr ''D2'', JNull)]
   \<and> extreme_days null_temps (Finite 55)
       = Inl (Exn TypeError
                (quoted ''>'' @ '' not supported between instances of '' @ quoted ''NoneType''
                 @ '' and '' @ quoted ''float'') None)"
  by (simp add: extreme_days_def null_temps_def null_payload_def py_gt_def as_value_def)

subsection \<open>The average\<close>




text \<open>
  Claim C6. For every dataset whose loaded payload is empty, \<^verbatim>\<open>average_temp()\<close> divides
  by a zero length: no guard protects the division and no error of the program's own is
  produced, the result is the interpreter's \<open>ZeroDivisionError\<close>.
\<close>

theorem average_temp_empty_raises:
  "self_temp_list self = Some [] \<Longrightarrow>
     average_temp self = Inl (Exn ZeroDivisionError ''division by zero'' None)"
  by (simp add: average_temp_def py_sum_def)

theorem average_temp_empty_raises_witness:
  "self_temp_list empty_temps = Some []
   \<and> average_temp empty_temps = Inl (Exn ZeroDivisionError ''division by zero'' None)"
proof -
  have h: "self_temp_list empty_temps = Some []" by (simp add: empty_temps_def)
  from average_temp_empty_raises [OF h] h show ?thesis by blast
qed















section \<open>Properties of the lookup and of the parser\<close>

text \<open>
  Claim C7. For every postal code for which the geocoder answers, \<^verbatim>\<open>zip_to_loc_info\<close>
  returns and does not raise; when the answer is empty it returns \<^verbatim>\<open>None\<close> in all three
  components, and otherwise the three fields of the row as they are (so NaN in all
  three for a row of NaN).
\<close>

theorem zip_to_loc_info_sentinel:
  assumes "query_postal_code env zip_code = Inr loc"
  shows "(\<exists>t. zip_to_loc_info env zip_code = Inr t)
         \<and> (loc_empty loc \<longrightarrow> zip_to_loc_info env zip_code = Inr (PNone, PNone, PNone))
         \<and> (\<not> loc_empty loc \<longrightarrow> zip_to_loc_info env zip_code
               = Inr (PFloat (latitude loc), PFloat (longitude loc), place_name loc))"
  using assms by (simp add: zip_to_loc_info_def)

theorem zip_to_loc_info_sentinel_witness:
  "query_postal_code sample_env ''no such code''
     = Inr empty_row \<and> loc_empty empty_row
   \<and> zip_to_loc_info sample_env ''no such code'' = Inr (PNone, PNone, PNone)
   \<and> query_postal_code sample_env ''00000''
     = Inr nan_row \<and> \<not> loc_empty nan_row
   \<and> zip_to_loc_info sample_env ''00000'' = Inr (PFloat NaN, PFloat NaN, PFloat NaN)"
proof -
  have h1: "query_postal_code sample_env ''no such code'' = Inr empty_row"
    by (simp add: sample_env_def sample_geocoder_def)
  have h2: "query_postal_code sample_env ''00000'' = Inr nan_row"
    by (simp add: sample_env_def sample_geocoder_def)
  have rows: "loc_empty empty_row" "\<not> loc_empty nan_row" "latitude nan_row = NaN"
    "longitude nan_row = NaN" "place_name nan_row = PFloat NaN"
    by (simp_all add: empty_row_def nan_row_def)
  from zip_to_loc_info_sentinel [OF h1] zip_to_loc_info_sentinel [OF h2] h1 h2 rows
  show ?thesis by simp
qed

text \<open>
  Claim C8. For every response that parses to an object whose \<open>daily\<close> member is an
  object with arrays \<open>time\<close> and \<open>temperature_2m_max\<close>, also of different lengths, the
  parser raises nothing and returns the pairs (date, temperature) by position, as many
  as the shorter array has.
\<close>

theorem convert_json_to_list_shorter:
  assumes parsed: "json_loads env data = Inr (JObj response)"
    and daily: "map_of response ''daily'' = Some (JObj daily)"
    and time: "map_of daily ''time'' = Some (JArr dates)"
    and temps: "map_of daily ''temperature_2m_max'' = Some (JArr temps)"
  shows "\<exists>ps. convert_json_to_list env data = Inr ps
           \<and> length ps = min (length dates) (length temps)
           \<and> (\<forall>i<length ps. ps ! i = (dates ! i, temps ! i))"
proof -
  have "convert_json_to_list env data = Inr (zip dates temps)"
    using assms by (simp add: convert_json_to_list_def list_zip_def)
  then show ?thesis by simp
qed

theorem convert_json_to_list_shorter_witness:
  "json_loads sample_env ''three dates, two temperatures''
     = Inr (JObj [(''daily'',
             JObj [(''time'', JArr [JStr ''D1'', JStr ''D2'', JStr ''D3'']),
                   (''temperature_2m_max'', JArr [JFloat (Finite 60), JFloat (Finite 75)])])])
   \<and> convert_json_to_list sample_env ''three dates, two temperatures''
       = Inr [(JStr ''D1'', JFloat (Finite 60)), (JStr ''D2'', JFloat (Finite 75))]"
proof -
  let ?daily = "[(''time'', JArr [JStr ''D1'', JStr ''D2'', JStr ''D3'']),
                   (''temperature_2m_max'', JArr [JFloat (Finite 60), JFloat (Finite 75)])]"
  have h1: "json_loads sample_env ''three dates, two temperatures'' = Inr (JObj [(''daily'', JObj ?daily)])"
    by (simp add: sample_env_def sample_json_loads_def)
  have h2: "map_of [(''daily'', JObj ?daily)] ''daily'' = Some (JObj ?daily)" by simp
  have h3: "map_of ?daily ''time'' = Some (JArr [JStr ''D1'', JStr ''D2'', JStr ''D3''])" by simp
  have h4: "map_of ?daily ''temperature_2m_max'' = Some (JArr [JFloat (Finite 60), JFloat (Finite 75)])" by simp
  from convert_json_to_list_shorter [OF h1 h2 h3 h4]
  obtain ps where ps: "convert_json_to_list sample_env ''three dates, two temperatures'' = Inr ps"
    and len: "length ps = min (length [JStr ''D1'', JStr ''D2'', JStr ''D3'']) (length [JFloat (Finite 60), JFloat (Finite 75)])"
    and nth: "\<forall>i<length ps. ps ! i = ([JStr ''D1'', JStr ''D2'', JStr ''D3''] ! i, [JFloat (Finite 60), JFloat (Finite 75)] ! i)"
    by blast
  from len have l2: "length ps = 2" by simp
  from nth l2 have "ps ! 0 = (JStr ''D1'', JFloat (Finite 60))" "ps ! 1 = (JStr ''D2'', JFloat (Finite 75))"
    by simp_all
  with l2 have "ps = [(JStr ''D1'', JFloat (Finite 60)), (JStr ''D2'', JFloat (Finite 75))]"
    by (cases ps; cases "tl ps") (auto simp: numeral_2_eq_2)
  with ps h1 show ?thesis by simp
qed

section \<open>Properties of loading and of the setters\<close>

lemma load_temps_failure:
  assumes "load_temps env self w = (Inl e, self', w')"
  shows "self' = self"
  using assms
  by (auto simp: load_temps_def Let_def split: sum.splits)

lemma load_temps_success:
  assumes "load_temps env self w = (Inr u, self', w')"
  shows "\<exists>temp_list. self' = self\<lparr>self_temp_list := Some temp_list\<rparr>"
  using assms
  by (auto simp: load_temps_def Let_def split: sum.splits)

lemma load_temps_world:
  assumes "load_temps env self w = (r, self', w')"
  shows "stdin w' = stdin w \<and> stdout w' = stdout w \<and> length (requests w') = Suc (length (requests w))"
  using assms
  by (auto simp: load_temps_def Let_def split: sum.splits)

lemma input_line:
  "input prompt w = (Inr l, w1) \<Longrightarrow>
     stdin w = l # stdin w1 \<and> stdout w1 = stdout w @ [prompt] \<and> requests w1 = requests w"
  by (auto simp: input_def Let_def split: list.splits)

text \<open>
  Claim C1. For every dataset and every new start or end date, if the reload that the
  assignment triggers raises \<open>e\<close>, the setter raises a \<open>LookupError\<close> (the error the
  specification calls DateRangeError) whose message ends with the text of \<open>e\<close> and whose
  context is \<open>e\<close>, and the object is exactly as before the assignment: the assigned
  endpoint is restored, the other endpoint and the payload are untouched.
\<close>

theorem setter_rollback:
  "(load_temps env (self\<lparr>self_start := new_value\<rparr>) w = (Inl e, other, w') \<longrightarrow>
      start_setter env new_value self w
        = (Inl (Exn LookupError
                  (''Can't load data for start date '' @ new_value @ '': '' @ msg e) (Some e)),
           self, w'))
   \<and> (load_temps env (self\<lparr>self_end := new_value\<rparr>) w = (Inl e, other, w') \<longrightarrow>
      end_setter env new_value self w
        = (Inl (Exn LookupError
                  (''Can't load data for end date '' @ new_value @ '': '' @ msg e) (Some e)),
           self, w'))"
proof (intro conjI impI)
  assume h: "load_temps env (self\<lparr>self_start := new_value\<rparr>) w = (Inl e, other, w')"
  from load_temps_failure [OF h] have "other = self\<lparr>self_start := new_value\<rparr>" .
  with h show "start_setter env new_value self w
        = (Inl (Exn LookupError
                  (''Can't load data for start date '' @ new_value @ '': '' @ msg e) (Some e)),
           self, w')"
    by (simp add: start_setter_def)
next
  assume h: "load_temps env (self\<lparr>self_end := new_value\<rparr>) w = (Inl e, other, w')"
  from load_temps_failure [OF h] have "other = self\<lparr>self_end := new_value\<rparr>" .
  with h show "end_setter env new_value self w
        = (Inl (Exn LookupError
                  (''Can't load data for end date '' @ new_value @ '': '' @ msg e) (Some e)),
           self, w')"
    by (simp add: end_setter_def)
qed

theorem setter_rollback_witness:
  "load_temps sample_env (sample_dataset\<lparr>self_start := ''1900-01-01''\<rparr>) (sample_world [])
     = (Inl (Exn OSError ''Connection refused'' None),
        sample_dataset\<lparr>self_start := ''1900-01-01''\<rparr>,
        (sample_world [])\<lparr>requests :=
           [\<lparr>param_latitude = self_lat sample_dataset, param_longitude = self_lon sample_dataset,
             param_start_date = ''1900-01-01'', param_end_date = ''2023-08-03'',
             param_daily = ''temperature_2m_max'', param_timezone = ''America/Los_Angeles''\<rparr>]\<rparr>)
   \<and> fst (start_setter sample_env ''1900-01-01'' sample_dataset (sample_world []))
       = Inl (Exn LookupError ''Can't load data for start date 1900-01-01: Connection refused''
                (Some (Exn OSError ''Connection refused'' None)))
   \<and> fst (snd (start_setter sample_env ''1900-01-01'' sample_dataset (sample_world [])))
       = sample_dataset
   \<and> load_temps sample_env (sample_dataset\<lparr>self_end := ''1900-01-01''\<rparr>) (sample_world [])
     = (Inl (Exn OSError ''Connection refused'' None),
        sample_dataset\<lparr>self_end := ''1900-01-01''\<rparr>,
        (sample_world [])\<lparr>requests :=
           [\<lparr>param_latitude = self_lat sample_dataset, param_longitude = self_lon sample_dataset,
             param_start_date = ''2023-08-01'', param_end_date = ''1900-01-01'',
             param_daily = ''temperature_2m_max'', param_timezone = ''America/Los_Angeles''\<rparr>]\<rparr>)
   \<and> fst (end_setter sample_env ''1900-01-01'' sample_dataset (sample_world []))
       = Inl (Exn LookupError ''Can't load data for end date 1900-01-01: Connection refused''
                (Some (Exn OSError ''Connection refused'' None)))
   \<and> fst (snd (end_setter sample_env ''1900-01-01'' sample_dataset (sample_world [])))
       = sample_dataset"
proof -
  let ?e = "Exn OSError ''Connection refused'' None"
  let ?ws = "(sample_world [])\<lparr>requests :=
           [\<lparr>param_latitude = self_lat sample_dataset, param_longitude = self_lon sample_dataset,
             param_start_date = ''1900-01-01'', param_end_date = ''2023-08-03'',
             param_daily = ''temperature_2m_max'', param_timezone = ''America/Los_Angeles''\<rparr>]\<rparr>"
  let ?we = "(sample_world [])\<lparr>requests :=
           [\<lparr>param_latitude = self_lat sample_dataset, param_longitude = self_lon sample_dataset,
             param_start_date = ''2023-08-01'', param_end_date = ''1900-01-01'',
             param_daily = ''temperature_2m_max'', param_timezone = ''America/Los_Angeles''\<rparr>]\<rparr>"
  have hs: "load_temps sample_env (sample_dataset\<lparr>self_start := ''1900-01-01''\<rparr>) (sample_world [])
     = (Inl ?e, sample_dataset\<lparr>self_start := ''1900-01-01''\<rparr>, ?ws)"
    by (simp add: load_temps_def sample_env_def sample_archive_def sample_dataset_def
        sample_world_def)
  have he: "load_temps sample_env (sample_dataset\<lparr>self_end := ''1900-01-01''\<rparr>) (sample_world [])
     = (Inl ?e, sample_dataset\<lparr>self_end := ''1900-01-01''\<rparr>, ?we)"
    by (simp add: load_temps_def sample_env_def sample_archive_def sample_dataset_def
        sample_world_def)
  from setter_rollback [where env = sample_env and self = sample_dataset
      and new_value = "''1900-01-01''" and w = "sample_world []" and e = ?e
      and other = "sample_dataset\<lparr>self_start := ''1900-01-01''\<rparr>" and w' = ?ws] hs
  have s: "start_setter sample_env ''1900-01-01'' sample_dataset (sample_world [])
        = (Inl (Exn LookupError
                  (''Can't load data for start date '' @ ''1900-01-01'' @ '': '' @ msg ?e) (Some ?e)),
           sample_dataset, ?ws)"
    by blast
  from setter_rollback [where env = sample_env and self = sample_dataset
      and new_value = "''1900-01-01''" and w = "sample_world []" and e = ?e
      and other = "sample_dataset\<lparr>self_end := ''1900-01-01''\<rparr>" and w' = ?we] he
  have e: "end_setter sample_env ''1900-01-01'' sample_dataset (sample_world [])
        = (Inl (Exn LookupError
                  (''Can't load data for end date '' @ ''1900-01-01'' @ '': '' @ msg ?e) (Some ?e)),
           sample_dataset, ?we)"
    by blast
  show ?thesis
    unfolding s e using hs he by simp
qed

section \<open>Properties of construction\<close>

lemma sample_rows:
  "query_postal_code sample_env ''90210'' = Inr sample_row"
  "query_postal_code offline_env ''90210'' = Inr sample_row"
  "query_postal_code sample_env ''00000'' = Inr nan_row"
  by (simp_all add: sample_env_def offline_env_def sample_geocoder_def sample_row_def nan_row_def)

lemma sample_default_load:
  "load_temps sample_env (initial_object ''90210'' default_start default_end sample_row)
       (sample_world [])
     = (Inr (),
        (initial_object ''90210'' default_start default_end sample_row)
          \<lparr>self_temp_list := Some [(JStr ''D1'', JFloat (Finite 60)), (JStr ''D2'', JFloat (Finite 75))]\<rparr>,
        (sample_world [])\<lparr>requests := [sample_request default_start default_end]\<rparr>)"
  by (simp add: load_temps_def sample_env_def sample_archive_def sample_json_loads_def
      convert_json_to_list_def list_zip_def initial_object_def sample_row_def
      sample_world_def sample_request_def default_start_def default_end_def)

lemma offline_default_load:
  "load_temps offline_env (initial_object ''90210'' default_start default_end sample_row)
       (sample_world [])
     = (Inl (Exn OSError ''Connection refused'' None),
        initial_object ''90210'' default_start default_end sample_row,
        (sample_world [])\<lparr>requests := [sample_request default_start default_end]\<rparr>)"
  by (simp add: load_temps_def offline_env_def sample_env_def initial_object_def sample_row_def
      sample_world_def sample_request_def default_start_def default_end_def)

text \<open>
  Claim C2, amended. For every postal code that the geocoder answers with a row that is
  not empty: if neither coordinate is NaN, construction loads the payload once and
  succeeds when that load succeeds, with the coordinates of the row, the given range
  and a loaded payload, and fails with the error of the load when it fails; if the
  latitude or the longitude is NaN, construction fails with the \<open>LookupError\<close> ``Invalid
  zip code: Location not found'' (the error the specification calls
  LocationNotFoundError) and no request is made.
\<close>

theorem construction_outcome:
  assumes row: "query_postal_code env zip_code = Inr loc" and nonempty: "\<not> loc_empty loc"
  shows "(latitude loc \<noteq> NaN \<and> longitude loc \<noteq> NaN
            \<and> load_temps env (initial_object zip_code start_date end_date loc) w = (Inr u, self, w')
          \<longrightarrow> HistoricalTemps_init env zip_code start_date end_date w = (Inr self, w')
              \<and> self_lat self = PFloat (latitude loc) \<and> self_lon self = PFloat (longitude loc)
              \<and> self_start self = start_date \<and> self_end self = end_date
              \<and> is_data_loaded self)
       \<and> (latitude loc \<noteq> NaN \<and> longitude loc \<noteq> NaN
            \<and> load_temps env (initial_object zip_code start_date end_date loc) w = (Inl e, self, w')
          \<longrightarrow> HistoricalTemps_init env zip_code start_date end_date w = (Inl e, w'))
       \<and> (latitude loc = NaN \<or> longitude loc = NaN
          \<longrightarrow> HistoricalTemps_init env zip_code start_date end_date w = (Inl location_not_found, w))"
proof -
  have info: "zip_to_loc_info env zip_code
      = Inr (PFloat (latitude loc), PFloat (longitude loc), place_name loc)"
    using row nonempty by (simp add: zip_to_loc_info_def)
  have ok: "HistoricalTemps_init env zip_code start_date end_date w = (Inr self, w')
              \<and> self_lat self = PFloat (latitude loc) \<and> self_lon self = PFloat (longitude loc)
              \<and> self_start self = start_date \<and> self_end self = end_date
              \<and> is_data_loaded self"
    if "latitude loc \<noteq> NaN" "longitude loc \<noteq> NaN"
      and ld: "load_temps env (initial_object zip_code start_date end_date loc) w = (Inr u, self, w')"
  proof -
    from load_temps_success [OF ld] obtain temp_list where
      self: "self = (initial_object zip_code start_date end_date loc)\<lparr>self_temp_list := Some temp_list\<rparr>"
      by blast
    have "HistoricalTemps_init env zip_code start_date end_date w = (Inr self, w')"
      using that info by (simp add: HistoricalTemps_init_def initial_object_def)
    then show ?thesis
      by (simp add: self initial_object_def is_data_loaded_def)
  qed
  have bad: "HistoricalTemps_init env zip_code start_date end_date w = (Inl e, w')"
    if "latitude loc \<noteq> NaN" "longitude loc \<noteq> NaN"
      and "load_temps env (initial_object zip_code start_date end_date loc) w = (Inl e, self, w')"
    using that info by (simp add: HistoricalTemps_init_def initial_object_def)
  have nan: "HistoricalTemps_init env zip_code start_date end_date w = (Inl location_not_found, w)"
    if "latitude loc = NaN \<or> longitude loc = NaN"
    using that info by (auto simp: HistoricalTemps_init_def)
  from ok bad nan show ?thesis by blast
qed

theorem construction_outcome_witness:
  "query_postal_code sample_env ''90210'' = Inr sample_row \<and> \<not> loc_empty sample_row
   \<and> latitude sample_row \<noteq> NaN \<and> longitude sample_row \<noteq> NaN
   \<and> HistoricalTemps_init sample_env ''90210'' default_start default_end (sample_world [])
       = (Inr ((initial_object ''90210'' default_start default_end sample_row)
                \<lparr>self_temp_list := Some [(JStr ''D1'', JFloat (Finite 60)),
                                          (JStr ''D2'', JFloat (Finite 75))]\<rparr>),
          (sample_world [])\<lparr>requests := [sample_request default_start default_end]\<rparr>)
   \<and> query_postal_code offline_env ''90210'' = Inr sample_row
   \<and> HistoricalTemps_init offline_env ''90210'' default_start default_end (sample_world [])
       = (Inl (Exn OSError ''Connection refused'' None),
          (sample_world [])\<lparr>requests := [sample_request default_start default_end]\<rparr>)
   \<and> query_postal_code sample_env ''00000'' = Inr nan_row \<and> \<not> loc_empty nan_row
   \<and> latitude nan_row = NaN
   \<and> HistoricalTemps_init sample_env ''00000'' default_start default_end (sample_world [])
       = (Inl location_not_found, sample_world [])"
proof -
  have ne: "\<not> loc_empty sample_row" "\<not> loc_empty nan_row"
    by (simp_all add: sample_row_def nan_row_def)
  have num: "latitude sample_row \<noteq> NaN" "longitude sample_row \<noteq> NaN"
    by (simp_all add: sample_row_def)
  have nan: "latitude nan_row = NaN" by (simp add: nan_row_def)
  from construction_outcome [OF sample_rows(1) ne(1)] num sample_default_load
  have a: "HistoricalTemps_init sample_env ''90210'' default_start default_end (sample_world [])
       = (Inr ((initial_object ''90210'' default_start default_end sample_row)
                \<lparr>self_temp_list := Some [(JStr ''D1'', JFloat (Finite 60)),
                                          (JStr ''D2'', JFloat (Finite 75))]\<rparr>),
          (sample_world [])\<lparr>requests := [sample_request default_start default_end]\<rparr>)"
    by blast
  from construction_outcome [OF sample_rows(2) ne(1)] num offline_default_load
  have b: "HistoricalTemps_init offline_env ''90210'' default_start default_end (sample_world [])
       = (Inl (Exn OSError ''Connection refused'' None),
          (sample_world [])\<lparr>requests := [sample_request default_start default_end]\<rparr>)"
    by blast
  from construction_outcome [OF sample_rows(3) ne(2)] nan
  have c: "HistoricalTemps_init sample_env ''00000'' default_start default_end (sample_world [])
       = (Inl location_not_found, sample_world [])"
    by blast
  from a b c ne num nan sample_rows show ?thesis by simp
qed

text \<open>
  The geocoder resolves \<open>90210\<close> to finite coordinates, the archive cannot be reached,
  and construction fails.
\<close>

theorem construction_load_failure_counterexample:
  "query_postal_code offline_env ''90210''
     = Inr \<lparr>loc_empty = False, latitude = Finite (340901 / 10000),
            longitude = Finite (- 1184065 / 10000), place_name = PStr ''Beverly Hills''\<rparr>
   \<and> fst (HistoricalTemps_init offline_env ''90210'' default_start default_end (sample_world []))
       = Inl (Exn OSError ''Connection refused'' None)"
  by (simp add: HistoricalTemps_init_def zip_to_loc_info_def load_temps_def offline_env_def
      sample_env_def sample_geocoder_def sample_row_def)

text \<open>
  An empty row is outside the statement above: \<^verbatim>\<open>zip_to_loc_info\<close> returns \<^verbatim>\<open>None\<close> three
  times, and \<^verbatim>\<open>math.isnan(None)\<close> raises \<open>TypeError\<close>, which is not a \<open>LookupError\<close>.
\<close>

lemma construction_empty_row_type_error:
  "zip_to_loc_info sample_env ''no such code'' = Inr (PNone, PNone, PNone)
   \<and> HistoricalTemps_init sample_env ''no such code'' default_start default_end (sample_world [])
       = (Inl (Exn TypeError ''must be real number, not NoneType'' None), sample_world [])
   \<and> \<not> is_LookupError TypeError"
  by (simp add: HistoricalTemps_init_def zip_to_loc_info_def sample_env_def sample_geocoder_def
      empty_row_def)

section \<open>Properties of the session\<close>

text \<open>
  Claim C9. Whenever the construction of the dataset raises a \<open>LookupError\<close> (as it does
  for a postal code without coordinates), \<^verbatim>\<open>create_dataset\<close> prints its message and
  returns \<^verbatim>\<open>None\<close>; menu option 1 then leaves \<^verbatim>\<open>None\<close> in slot one and option 2 in slot two,
  whatever the slot held before, and the other slot keeps its dataset.
\<close>

theorem create_dataset_lookup_error:
  assumes zip: "input ''Please enter a zip code: '' w = (Inr zip_code, w1)"
    and fails: "HistoricalTemps_init env zip_code default_start default_end w1 = (Inl e, w2)"
    and lookup: "is_LookupError (cls e)"
  shows "create_dataset env w = (Inr None, print invalid_zip_message w2)
       \<and> menu_match rep env 1 dataset_one dataset_two w
           = (Inr Continue, None, dataset_two, print invalid_zip_message w2)
       \<and> menu_match rep env 2 dataset_one dataset_two w
           = (Inr Continue, dataset_one, None, print invalid_zip_message w2)"
proof -
  have c: "create_dataset env w = (Inr None, print invalid_zip_message w2)"
    using assms by (simp add: create_dataset_def invalid_zip_message_def)
  then show ?thesis by (simp add: menu_match_def)
qed

theorem create_dataset_lookup_error_witness:
  "input ''Please enter a zip code: '' (sample_world [''00000''])
     = (Inr ''00000'', \<lparr>stdin = [], stdout = [''Please enter a zip code: ''], requests = []\<rparr>)
   \<and> HistoricalTemps_init sample_env ''00000'' default_start default_end
         \<lparr>stdin = [], stdout = [''Please enter a zip code: ''], requests = []\<rparr>
       = (Inl location_not_found,
          \<lparr>stdin = [], stdout = [''Please enter a zip code: ''], requests = []\<rparr>)
   \<and> is_LookupError (cls location_not_found)
   \<and> menu_match no_reports sample_env 1 (Some sample_dataset) None (sample_world [''00000''])
       = (Inr Continue, None, None,
          \<lparr>stdin = [], stdout = [''Please enter a zip code: '', invalid_zip_message],
            requests = []\<rparr>)
   \<and> menu_match no_reports sample_env 2 None (Some sample_dataset) (sample_world [''00000''])
       = (Inr Continue, None, None,
          \<lparr>stdin = [], stdout = [''Please enter a zip code: '', invalid_zip_message],
            requests = []\<rparr>)"
proof -
  let ?w1 = "\<lparr>stdin = [], stdout = [''Please enter a zip code: ''], requests = []\<rparr>"
  have h1: "input ''Please enter a zip code: '' (sample_world [''00000'']) = (Inr ''00000'', ?w1)"
    by (simp add: input_def sample_world_def)
  have h2: "HistoricalTemps_init sample_env ''00000'' default_start default_end ?w1
       = (Inl location_not_found, ?w1)"
    by (simp add: HistoricalTemps_init_def zip_to_loc_info_def sample_env_def
        sample_geocoder_def nan_row_def)
  have h3: "is_LookupError (cls location_not_found)"
    by (simp add: location_not_found_def)
  from create_dataset_lookup_error [OF h1 h2 h3, of no_reports "Some sample_dataset" None]
    create_dataset_lookup_error [OF h1 h2 h3, of no_reports None "Some sample_dataset"]
    h1 h2 h3
  show ?thesis by (simp add: print_def)
qed

text \<open>
  Claim C10. In \<^verbatim>\<open>change_dates\<close> on a loaded dataset: if the reload for the new start date
  fails, the dialog reports it and returns with the object as it was (both endpoints
  old); only the start prompt has been written, only the start line has been read and
  one request has been made, so the end date is neither asked for nor tried. If the
  start assignment succeeds and the reload for the new end date fails, the dialog
  returns with the object the start assignment left: the new start, the old end.
\<close>

theorem change_dates_partial:
  assumes loaded: "is_data_loaded dataset"
    and first: "input start_prompt w = (Inr new_start, w1)"
  shows "(load_temps env (dataset\<lparr>self_start := new_start\<rparr>) w1 = (Inl e, other, w2)
          \<longrightarrow> change_dates env dataset w
                = (Inr (), dataset,
                   print (''Failed to change the start date: ''
                          @ ''Can't load data for start date '' @ new_start @ '': '' @ msg e) w2)
              \<and> stdin w2 = tl (stdin w) \<and> stdout w2 = stdout w @ [start_prompt]
              \<and> length (requests w2) = Suc (length (requests w)))
       \<and> (load_temps env (dataset\<lparr>self_start := new_start\<rparr>) w1 = (Inr u, dataset1, w2)
            \<and> input end_prompt w2 = (Inr new_end, w3)
            \<and> load_temps env (dataset1\<lparr>self_end := new_end\<rparr>) w3 = (Inl e, other, w4)
          \<longrightarrow> change_dates env dataset w
                = (Inr (), dataset1,
                   print (''Failed to change the end date: ''
                          @ ''Can't load data for end date '' @ new_end @ '': '' @ msg e) w4)
              \<and> self_start dataset1 = new_start \<and> self_end dataset1 = self_end dataset)"
proof (intro conjI impI)
  assume h: "load_temps env (dataset\<lparr>self_start := new_start\<rparr>) w1 = (Inl e, other, w2)"
  from load_temps_failure [OF h] have o: "other = dataset\<lparr>self_start := new_start\<rparr>" .
  from h o have set: "start_setter env new_start dataset w1
      = (Inl (Exn LookupError (''Can't load data for start date '' @ new_start @ '': '' @ msg e)
               (Some e)), dataset, w2)"
    by (simp add: start_setter_def)
  show "change_dates env dataset w
                = (Inr (), dataset,
                   print (''Failed to change the start date: ''
                          @ ''Can't load data for start date '' @ new_start @ '': '' @ msg e) w2)"
    using loaded first set by (simp add: change_dates_def start_prompt_def)
  from input_line [OF first] load_temps_world [OF h]
  show "stdin w2 = tl (stdin w)" "stdout w2 = stdout w @ [start_prompt]"
    "length (requests w2) = Suc (length (requests w))"
    by simp_all
next
  assume h: "load_temps env (dataset\<lparr>self_start := new_start\<rparr>) w1 = (Inr u, dataset1, w2)
            \<and> input end_prompt w2 = (Inr new_end, w3)
            \<and> load_temps env (dataset1\<lparr>self_end := new_end\<rparr>) w3 = (Inl e, other, w4)"
  then have l1: "load_temps env (dataset\<lparr>self_start := new_start\<rparr>) w1 = (Inr u, dataset1, w2)"
    and second: "input end_prompt w2 = (Inr new_end, w3)"
    and l2: "load_temps env (dataset1\<lparr>self_end := new_end\<rparr>) w3 = (Inl e, other, w4)"
    by simp_all
  from l1 have set1: "start_setter env new_start dataset w1 = (Inr u, dataset1, w2)"
    by (simp add: start_setter_def)
  from load_temps_failure [OF l2] have o: "other = dataset1\<lparr>self_end := new_end\<rparr>" .
  from l2 o have set2: "end_setter env new_end dataset1 w3
      = (Inl (Exn LookupError (''Can't load data for end date '' @ new_end @ '': '' @ msg e)
               (Some e)), dataset1, w4)"
    by (simp add: end_setter_def)
  show "change_dates env dataset w
                = (Inr (), dataset1,
                   print (''Failed to change the end date: ''
                          @ ''Can't load data for end date '' @ new_end @ '': '' @ msg e) w4)"
    using loaded first second set1 set2
    by (simp add: change_dates_def start_prompt_def end_prompt_def)
  from load_temps_success [OF l1] obtain temp_list where
    d1: "dataset1 = dataset\<lparr>self_start := new_start, self_temp_list := Some temp_list\<rparr>"
    by auto
  then show "self_start dataset1 = new_start" "self_end dataset1 = self_end dataset"
    by simp_all
qed

lemma sample_loads:
  "load_temps sample_env (sample_dataset\<lparr>self_start := ''1900-01-01''\<rparr>)
       \<lparr>stdin = ls, stdout = out, requests = []\<rparr>
     = (Inl (Exn OSError ''Connection refused'' None),
        sample_dataset\<lparr>self_start := ''1900-01-01''\<rparr>,
        \<lparr>stdin = ls, stdout = out, requests = [sample_request ''1900-01-01'' ''2023-08-03'']\<rparr>)"
  "load_temps sample_env (sample_dataset\<lparr>self_start := ''2023-08-02''\<rparr>)
       \<lparr>stdin = ls, stdout = out, requests = []\<rparr>
     = (Inr (),
        sample_dataset\<lparr>self_start := ''2023-08-02'', self_temp_list := Some two_days\<rparr>,
        \<lparr>stdin = ls, stdout = out, requests = [sample_request ''2023-08-02'' ''2023-08-03'']\<rparr>)"
  "load_temps sample_env
       (sample_dataset\<lparr>self_start := ''2023-08-02'', self_temp_list := Some two_days,
                        self_end := ''1900-01-01''\<rparr>)
       \<lparr>stdin = ls, stdout = out, requests = [sample_request ''2023-08-02'' ''2023-08-03'']\<rparr>
     = (Inl (Exn OSError ''Connection refused'' None),
        sample_dataset\<lparr>self_start := ''2023-08-02'', self_temp_list := Some two_days,
                        self_end := ''1900-01-01''\<rparr>,
        \<lparr>stdin = ls, stdout = out,
          requests = [sample_request ''2023-08-02'' ''2023-08-03'',
                      sample_request ''2023-08-02'' ''1900-01-01'']\<rparr>)"
  by (simp_all add: load_temps_def sample_env_def sample_archive_def sample_json_loads_def
      convert_json_to_list_def list_zip_def sample_dataset_def sample_request_def two_days_def)

theorem change_dates_partial_witness:
  "is_data_loaded sample_dataset
   \<and> input start_prompt (sample_world [''1900-01-01'', ''unread''])
       = (Inr ''1900-01-01'', \<lparr>stdin = [''unread''], stdout = [start_prompt], requests = []\<rparr>)
   \<and> change_dates sample_env sample_dataset (sample_world [''1900-01-01'', ''unread''])
       = (Inr (), sample_dataset,
          \<lparr>stdin = [''unread''],
            stdout = [start_prompt,
              ''Failed to change the start date: Can't load data for start date 1900-01-01: Connection refused''],
            requests = [sample_request ''1900-01-01'' ''2023-08-03'']\<rparr>)
   \<and> input start_prompt (sample_world [''2023-08-02'', ''1900-01-01''])
       = (Inr ''2023-08-02'', \<lparr>stdin = [''1900-01-01''], stdout = [start_prompt], requests = []\<rparr>)
   \<and> input end_prompt
         \<lparr>stdin = [''1900-01-01''], stdout = [start_prompt],
           requests = [sample_request ''2023-08-02'' ''2023-08-03'']\<rparr>
       = (Inr ''1900-01-01'',
          \<lparr>stdin = [], stdout = [start_prompt, end_prompt],
            requests = [sample_request ''2023-08-02'' ''2023-08-03'']\<rparr>)
   \<and> change_dates sample_env sample_dataset (sample_world [''2023-08-02'', ''1900-01-01''])
       = (Inr (),
          sample_dataset\<lparr>self_start := ''2023-08-02'', self_temp_list := Some two_days\<rparr>,
          \<lparr>stdin = [],
            stdout = [start_prompt, end_prompt,
              ''Failed to change the end date: Can't load data for end date 1900-01-01: Connection refused''],
            requests = [sample_request ''2023-08-02'' ''2023-08-03'',
                        sample_request ''2023-08-02'' ''1900-01-01'']\<rparr>)
   \<and> self_end sample_dataset = ''2023-08-03''"
proof -
  let ?e = "Exn OSError ''Connection refused'' None"
  have loaded: "is_data_loaded sample_dataset"
    by (simp add: is_data_loaded_def sample_dataset_def)
  have in_a: "input start_prompt (sample_world [''1900-01-01'', ''unread''])
       = (Inr ''1900-01-01'', \<lparr>stdin = [''unread''], stdout = [start_prompt], requests = []\<rparr>)"
    by (simp add: input_def sample_world_def)
  have in_b: "input start_prompt (sample_world [''2023-08-02'', ''1900-01-01''])
       = (Inr ''2023-08-02'', \<lparr>stdin = [''1900-01-01''], stdout = [start_prompt], requests = []\<rparr>)"
    by (simp add: input_def sample_world_def)
  have in_c: "input end_prompt
         \<lparr>stdin = [''1900-01-01''], stdout = [start_prompt],
           requests = [sample_request ''2023-08-02'' ''2023-08-03'']\<rparr>
       = (Inr ''1900-01-01'',
          \<lparr>stdin = [], stdout = [start_prompt, end_prompt],
            requests = [sample_request ''2023-08-02'' ''2023-08-03'']\<rparr>)"
    by (simp add: input_def)
  from change_dates_partial [OF loaded in_a, where env = sample_env and e = ?e] sample_loads(1)
  have a: "change_dates sample_env sample_dataset (sample_world [''1900-01-01'', ''unread''])
      = (Inr (), sample_dataset,
         print (''Failed to change the start date: ''
                @ ''Can't load data for start date '' @ ''1900-01-01'' @ '': '' @ msg ?e)
           \<lparr>stdin = [''unread''], stdout = [start_prompt],
             requests = [sample_request ''1900-01-01'' ''2023-08-03'']\<rparr>)"
    by blast
  from change_dates_partial [OF loaded in_b, where env = sample_env and e = ?e
      and new_end = "''1900-01-01''"] sample_loads(2) sample_loads(3) in_c
  have b: "change_dates sample_env sample_dataset (sample_world [''2023-08-02'', ''1900-01-01''])
      = (Inr (),
         sample_dataset\<lparr>self_start := ''2023-08-02'', self_temp_list := Some two_days\<rparr>,
         print (''Failed to change the end date: ''
                @ ''Can't load data for end date '' @ ''1900-01-01'' @ '': '' @ msg ?e)
           \<lparr>stdin = [], stdout = [start_prompt, end_prompt],
             requests = [sample_request ''2023-08-02'' ''2023-08-03'',
                         sample_request ''2023-08-02'' ''1900-01-01'']\<rparr>)"
    by blast
  have "self_end sample_dataset = ''2023-08-03''" by (simp add: sample_dataset_def)
  with loaded in_a in_b in_c a b show ?thesis by (simp add: print_def)
qed

end
